theory Spec2Isabelle
  imports Main "HOL-Library.AList"
begin


section \<open>Shared notions\<close>

text \<open>
  Times are \<open>Date.now()\<close> readings: integers, milliseconds. Every operation takes the
  reading \<open>now\<close> as an argument. JavaScript exceptions are values of \<open>exn\<close>; a function
  that may reject returns \<open>exn + 'a\<close> with \<open>Inl\<close> for the rejection.
\<close>

type_synonym key = string

datatype exn =
  ConnError | TypeError | WrongType | BadArg
  | TooManySessions | SessionNotFound | ValueTooLarge | NoRedisClient | AgentFailure

definition truthy :: "string option \<Rightarrow> bool" where
  \<comment> \<open>JavaScript truthiness of an optional string: undefined and the empty string are falsy.\<close>
  "truthy s = (case s of None \<Rightarrow> False | Some t \<Rightarrow> t \<noteq> [])"

definition ceil_div :: "int \<Rightarrow> int \<Rightarrow> int" where
  \<comment> \<open>\<open>Math.ceil(a / b)\<close> on integers, \<open>b > 0\<close>.\<close>
  "ceil_div a b = - ((- a) div b)"

definition digit_char :: "nat \<Rightarrow> char" where
  "digit_char d = char_of (48 + d)"

fun digits :: "nat \<Rightarrow> string" where
  "digits n = (if n < 10 then [digit_char n] else digits (n div 10) @ [digit_char (n mod 10)])"

definition show_int :: "int \<Rightarrow> string" where
  \<comment> \<open>The decimal text a template string gives an integer.\<close>
  "show_int i = (if i < 0 then CHR ''-'' # digits (nat (- i)) else digits (nat i))"

definition digits_val :: "string \<Rightarrow> nat" where
  "digits_val s = foldl (\<lambda>a c. 10 * a + (of_char c - 48)) 0 s"

section \<open>The coordination store and its adapter (redis.service.ts)\<close>

subsection \<open>Values\<close>

text \<open>
  The store holds strings and sets of strings. The strings this code writes are decimal
  counters and \<open>JSON.stringify\<close> of a session or of a cache entry; the model keeps the
  value the string stands for (\<open>JSON.parse\<close> after \<open>JSON.stringify\<close> is the identity on
  these records). A cached value is a JSON value.
\<close>

datatype json =
  JNull | JBool bool | JNum int | JStr string | JArr "json list" | JObj "(string \<times> json) list"

record SessionData =
  sessionId :: string
  createdAt :: int
  lastActivity :: int
  ipAddress :: string
  userAgent :: string
  messageCount :: int
  isActive :: bool

record CacheEntry =
  entry_value :: json
  entry_ttl :: int
  compressed :: bool
  entry_size :: nat
  entry_createdAt :: int
  lastAccessed :: int

datatype rvalue = RCount int | RSession SessionData | REntry CacheEntry | RSet "string list"

subsection \<open>The server\<close>

text \<open>
  \<open>client\<close> and \<open>subscriber\<close> are the two connection handles of RedisService:
  \<open>Absent\<close> when the field is undefined, \<open>Failing\<close> when every command on it rejects,
  \<open>Connected\<close> otherwise. \<open>kv\<close> maps a key to its value and its expiry time, if it has
  one; a key whose expiry time has come is gone. \<open>subscriptions\<close> is the adapter's local
  map of callbacks (its channels), \<open>channels\<close> the channels the server has the subscriber
  on, \<open>published\<close> the messages published so far.
\<close>

datatype handle = Absent | Failing | Connected

record redis =
  client :: handle
  subscriber :: handle
  kv :: "(key \<times> rvalue \<times> int option) list"
  subscriptions :: "string list"
  channels :: "string list"
  published :: "(string \<times> string) list"

definition lookup :: "redis \<Rightarrow> int \<Rightarrow> key \<Rightarrow> rvalue option" where
  "lookup r now k =
     (case map_of (kv r) k of
        None \<Rightarrow> None
      | Some (v, None) \<Rightarrow> Some v
      | Some (v, Some t) \<Rightarrow> if now < t then Some v else None)"

definition expiry :: "redis \<Rightarrow> key \<Rightarrow> int option" where
  "expiry r k = (case map_of (kv r) k of None \<Rightarrow> None | Some (v, e) \<Rightarrow> e)"

definition store :: "redis \<Rightarrow> key \<Rightarrow> rvalue \<Rightarrow> int option \<Rightarrow> redis" where
  "store r k v e = r\<lparr>kv := AList.update k (v, e) (kv r)\<rparr>"

definition remove :: "redis \<Rightarrow> key \<Rightarrow> redis" where
  "remove r k = r\<lparr>kv := AList.delete k (kv r)\<rparr>"

text \<open>
  Key patterns of the KEYS command, with \<open>*\<close> (any run of bytes) and \<open>?\<close> (any one
  byte); the code's patterns are a literal prefix followed by \<open>*\<close>.
\<close>

fun glob :: "string \<Rightarrow> string \<Rightarrow> bool" where
  "glob [] s = (s = [])"
| "glob (p # ps) [] = (p = CHR ''*'' \<and> glob ps [])"
| "glob (p # ps) (c # cs) =
     (if p = CHR ''*'' then glob ps (c # cs) \<or> glob (p # ps) cs
      else (p = CHR ''?'' \<or> p = c) \<and> glob ps cs)"

subsection \<open>Commands of the driver\<close>

text \<open>
  A command on a handle that is not \<open>Connected\<close> rejects: with a TypeError when the
  handle is undefined, with a connection error otherwise.
\<close>

definition down :: "handle \<Rightarrow> exn" where
  "down h = (if h = Absent then TypeError else ConnError)"

definition cmd_get :: "redis \<Rightarrow> int \<Rightarrow> key \<Rightarrow> exn + rvalue option" where
  "cmd_get r now k =
     (if client r \<noteq> Connected then Inl (down (client r))
      else case lookup r now k of
             Some (RSet xs) \<Rightarrow> Inl WrongType
           | v \<Rightarrow> Inr v)"

definition cmd_set :: "redis \<Rightarrow> key \<Rightarrow> rvalue \<Rightarrow> exn + redis" where
  \<comment> \<open>SET without options: the key keeps no expiry.\<close>
  "cmd_set r k v =
     (if client r \<noteq> Connected then Inl (down (client r)) else Inr (store r k v None))"

definition cmd_setex :: "redis \<Rightarrow> int \<Rightarrow> key \<Rightarrow> int \<Rightarrow> rvalue \<Rightarrow> exn + redis" where
  "cmd_setex r now k ttl v =
     (if client r \<noteq> Connected then Inl (down (client r))
      else if ttl \<le> 0 then Inl BadArg
      else Inr (store r k v (Some (now + ttl * 1000))))"

definition cmd_incr :: "redis \<Rightarrow> int \<Rightarrow> key \<Rightarrow> exn + (int \<times> redis)" where
  "cmd_incr r now k =
     (if client r \<noteq> Connected then Inl (down (client r))
      else case lookup r now k of
             None \<Rightarrow> Inr (1, store r k (RCount 1) None)
           | Some (RCount n) \<Rightarrow> Inr (n + 1, store r k (RCount (n + 1)) (expiry r k))
           | Some _ \<Rightarrow> Inl WrongType)"

definition cmd_expire :: "redis \<Rightarrow> int \<Rightarrow> key \<Rightarrow> int \<Rightarrow> exn + (int \<times> redis)" where
  "cmd_expire r now k ttl =
     (if client r \<noteq> Connected then Inl (down (client r))
      else case lookup r now k of
             None \<Rightarrow> Inr (0, r)
           | Some v \<Rightarrow> Inr (1, store r k v (Some (now + ttl * 1000))))"

fun del_keys :: "redis \<Rightarrow> int \<Rightarrow> key list \<Rightarrow> int \<times> redis" where
  "del_keys r now [] = (0, r)"
| "del_keys r now (k # ks) =
     (let (n, r') = del_keys (remove r k) now ks
      in ((if lookup r now k = None then 0 else 1) + n, r'))"

definition cmd_del :: "redis \<Rightarrow> int \<Rightarrow> key list \<Rightarrow> exn + (int \<times> redis)" where
  "cmd_del r now ks =
     (if client r \<noteq> Connected then Inl (down (client r))
      else if ks = [] then Inl BadArg
      else Inr (del_keys r now ks))"

definition cmd_keys :: "redis \<Rightarrow> int \<Rightarrow> string \<Rightarrow> exn + key list" where
  "cmd_keys r now pat =
     (if client r \<noteq> Connected then Inl (down (client r))
      else Inr (filter (\<lambda>k. glob pat k \<and> lookup r now k \<noteq> None) (remdups (map fst (kv r)))))"

definition cmd_sadd :: "redis \<Rightarrow> int \<Rightarrow> key \<Rightarrow> string list \<Rightarrow> exn + (int \<times> redis)" where
  "cmd_sadd r now k ms =
     (if client r \<noteq> Connected then Inl (down (client r))
      else if ms = [] then Inl BadArg
      else case lookup r now k of
             None \<Rightarrow> Inr (int (length (remdups ms)), store r k (RSet (remdups ms)) None)
           | Some (RSet xs) \<Rightarrow>
               (let new = filter (\<lambda>m. m \<notin> set xs) (remdups ms)
                in Inr (int (length new), store r k (RSet (xs @ new)) (expiry r k)))
           | Some _ \<Rightarrow> Inl WrongType)"

definition cmd_srem :: "redis \<Rightarrow> int \<Rightarrow> key \<Rightarrow> string list \<Rightarrow> exn + (int \<times> redis)" where
  \<comment> \<open>A set that becomes empty is deleted.\<close>
  "cmd_srem r now k ms =
     (if client r \<noteq> Connected then Inl (down (client r))
      else if ms = [] then Inl BadArg
      else case lookup r now k of
             None \<Rightarrow> Inr (0, r)
           | Some (RSet xs) \<Rightarrow>
               (let rest = filter (\<lambda>x. x \<notin> set ms) xs;
                    n = int (length xs) - int (length rest)
                in Inr (n, if rest = [] then remove r k else store r k (RSet rest) (expiry r k)))
           | Some _ \<Rightarrow> Inl WrongType)"

definition cmd_smembers :: "redis \<Rightarrow> int \<Rightarrow> key \<Rightarrow> exn + string list" where
  "cmd_smembers r now k =
     (if client r \<noteq> Connected then Inl (down (client r))
      else case lookup r now k of
             None \<Rightarrow> Inr []
           | Some (RSet xs) \<Rightarrow> Inr xs
           | Some _ \<Rightarrow> Inl WrongType)"

definition cmd_publish :: "redis \<Rightarrow> string \<Rightarrow> string \<Rightarrow> exn + redis" where
  "cmd_publish r ch msg =
     (if client r \<noteq> Connected then Inl (down (client r))
      else Inr (r\<lparr>published := published r @ [(ch, msg)]\<rparr>))"

definition cmd_subscribe :: "redis \<Rightarrow> string \<Rightarrow> exn + redis" where
  "cmd_subscribe r ch =
     (if subscriber r \<noteq> Connected then Inl (down (subscriber r))
      else Inr (r\<lparr>channels := List.insert ch (channels r)\<rparr>))"

definition cmd_unsubscribe :: "redis \<Rightarrow> string \<Rightarrow> exn + redis" where
  "cmd_unsubscribe r ch =
     (if subscriber r \<noteq> Connected then Inl (down (subscriber r))
      else Inr (r\<lparr>channels := removeAll ch (channels r)\<rparr>))"

subsection \<open>RedisService\<close>

text \<open>
  Each method is \<open>try { if (!this.client) return default; return await command }
  catch { return default }\<close>; \<open>unsubscribe\<close> has no guard and its catch block rethrows.
\<close>

definition redis_get :: "redis \<Rightarrow> int \<Rightarrow> key \<Rightarrow> exn + rvalue option" where
  "redis_get r now k =
     (if client r = Absent then Inr None
      else case cmd_get r now k of Inl e \<Rightarrow> Inr None | Inr v \<Rightarrow> Inr v)"

definition redis_set :: "redis \<Rightarrow> int \<Rightarrow> key \<Rightarrow> rvalue \<Rightarrow> int option \<Rightarrow> exn + redis" where
  \<comment> \<open>\<open>if (ttl)\<close>: an absent or zero ttl takes the plain SET.\<close>
  "redis_set r now k v ttl =
     (if client r = Absent then Inr r
      else case (if ttl \<noteq> None \<and> ttl \<noteq> Some 0 then cmd_setex r now k (the ttl) v
                 else cmd_set r k v) of
             Inl e \<Rightarrow> Inr r
           | Inr r' \<Rightarrow> Inr r')"

definition redis_incr :: "redis \<Rightarrow> int \<Rightarrow> key \<Rightarrow> exn + (int \<times> redis)" where
  "redis_incr r now k =
     (if client r = Absent then Inr (0, r)
      else case cmd_incr r now k of Inl e \<Rightarrow> Inr (0, r) | Inr x \<Rightarrow> Inr x)"

definition redis_expire :: "redis \<Rightarrow> int \<Rightarrow> key \<Rightarrow> int \<Rightarrow> exn + (bool \<times> redis)" where
  "redis_expire r now k ttl =
     (if client r = Absent then Inr (False, r)
      else case cmd_expire r now k ttl of
             Inl e \<Rightarrow> Inr (False, r)
           | Inr (n, r') \<Rightarrow> Inr (n = 1, r'))"

definition redis_del :: "redis \<Rightarrow> int \<Rightarrow> key list \<Rightarrow> exn + (int \<times> redis)" where
  "redis_del r now ks =
     (if client r = Absent then Inr (0, r)
      else case cmd_del r now ks of Inl e \<Rightarrow> Inr (0, r) | Inr x \<Rightarrow> Inr x)"

definition redis_keys :: "redis \<Rightarrow> int \<Rightarrow> string \<Rightarrow> exn + key list" where
  "redis_keys r now pat =
     (if client r = Absent then Inr []
      else case cmd_keys r now pat of Inl e \<Rightarrow> Inr [] | Inr ks \<Rightarrow> Inr ks)"

definition setWithExpiry :: "redis \<Rightarrow> int \<Rightarrow> key \<Rightarrow> rvalue \<Rightarrow> int \<Rightarrow> exn + redis" where
  "setWithExpiry r now k v ttl =
     (if client r = Absent then Inr r
      else case cmd_setex r now k ttl v of Inl e \<Rightarrow> Inr r | Inr r' \<Rightarrow> Inr r')"

definition sadd :: "redis \<Rightarrow> int \<Rightarrow> key \<Rightarrow> string list \<Rightarrow> exn + (int \<times> redis)" where
  "sadd r now k ms =
     (if client r = Absent then Inr (0, r)
      else case cmd_sadd r now k ms of Inl e \<Rightarrow> Inr (0, r) | Inr x \<Rightarrow> Inr x)"

definition srem :: "redis \<Rightarrow> int \<Rightarrow> key \<Rightarrow> string list \<Rightarrow> exn + (int \<times> redis)" where
  "srem r now k ms =
     (if client r = Absent then Inr (0, r)
      else case cmd_srem r now k ms of Inl e \<Rightarrow> Inr (0, r) | Inr x \<Rightarrow> Inr x)"

definition smembers :: "redis \<Rightarrow> int \<Rightarrow> key \<Rightarrow> exn + string list" where
  "smembers r now k =
     (if client r = Absent then Inr []
      else case cmd_smembers r now k of Inl e \<Rightarrow> Inr [] | Inr xs \<Rightarrow> Inr xs)"

definition publish :: "redis \<Rightarrow> string \<Rightarrow> string \<Rightarrow> exn + redis" where
  "publish r ch msg =
     (if client r = Absent then Inr r
      else case cmd_publish r ch msg of Inl e \<Rightarrow> Inr r | Inr r' \<Rightarrow> Inr r')"

definition subscribe :: "redis \<Rightarrow> string \<Rightarrow> exn + redis" where
  \<comment> \<open>The callback is recorded before the command is awaited.\<close>
  "subscribe r ch =
     (if subscriber r = Absent then Inr r
      else let r1 = r\<lparr>subscriptions := List.insert ch (subscriptions r)\<rparr>
           in case cmd_subscribe r1 ch of Inl e \<Rightarrow> Inr r1 | Inr r' \<Rightarrow> Inr r')"

definition unsubscribe :: "redis \<Rightarrow> string \<Rightarrow> exn + redis" where
  "unsubscribe r ch =
     (case cmd_unsubscribe r ch of
        Inl e \<Rightarrow> Inl e
      | Inr r' \<Rightarrow> Inr (r'\<lparr>subscriptions := removeAll ch (subscriptions r')\<rparr>))"

text \<open>The adapter's operations as one type, for statements about all of them.\<close>

datatype redis_op =
  OpGet key | OpSet key rvalue "int option" | OpIncr key | OpExpire key int
  | OpDel "key list" | OpKeys string | OpSetWithExpiry key rvalue int
  | OpSadd key "string list" | OpSrem key "string list" | OpSmembers key
  | OpPublish string string | OpSubscribe string | OpUnsubscribe string

datatype reply =
  Value "rvalue option" | Number int | Flag bool | Names "string list" | Done

fun run_op :: "redis \<Rightarrow> int \<Rightarrow> redis_op \<Rightarrow> exn + (reply \<times> redis)" where
  "run_op r now (OpGet k) = map_sum id (\<lambda>v. (Value v, r)) (redis_get r now k)"
| "run_op r now (OpSet k v ttl) = map_sum id (\<lambda>r'. (Done, r')) (redis_set r now k v ttl)"
| "run_op r now (OpIncr k) = map_sum id (\<lambda>(n, r'). (Number n, r')) (redis_incr r now k)"
| "run_op r now (OpExpire k ttl) = map_sum id (\<lambda>(b, r'). (Flag b, r')) (redis_expire r now k ttl)"
| "run_op r now (OpDel ks) = map_sum id (\<lambda>(n, r'). (Number n, r')) (redis_del r now ks)"
| "run_op r now (OpKeys pat) = map_sum id (\<lambda>ks. (Names ks, r)) (redis_keys r now pat)"
| "run_op r now (OpSetWithExpiry k v ttl) = map_sum id (\<lambda>r'. (Done, r')) (setWithExpiry r now k v ttl)"
| "run_op r now (OpSadd k ms) = map_sum id (\<lambda>(n, r'). (Number n, r')) (sadd r now k ms)"
| "run_op r now (OpSrem k ms) = map_sum id (\<lambda>(n, r'). (Number n, r')) (srem r now k ms)"
| "run_op r now (OpSmembers k) = map_sum id (\<lambda>xs. (Names xs, r)) (smembers r now k)"
| "run_op r now (OpPublish ch msg) = map_sum id (\<lambda>r'. (Done, r')) (publish r ch msg)"
| "run_op r now (OpSubscribe ch) = map_sum id (\<lambda>r'. (Done, r')) (subscribe r ch)"
| "run_op r now (OpUnsubscribe ch) = map_sum id (\<lambda>r'. (Done, r')) (unsubscribe r ch)"

fun neutral :: "redis_op \<Rightarrow> reply" where
  "neutral (OpGet k) = Value None"
| "neutral (OpSet k v ttl) = Done"
| "neutral (OpIncr k) = Number 0"
| "neutral (OpExpire k ttl) = Flag False"
| "neutral (OpDel ks) = Number 0"
| "neutral (OpKeys pat) = Names []"
| "neutral (OpSetWithExpiry k v ttl) = Done"
| "neutral (OpSadd k ms) = Number 0"
| "neutral (OpSrem k ms) = Number 0"
| "neutral (OpSmembers k) = Names []"
| "neutral (OpPublish ch msg) = Done"
| "neutral (OpSubscribe ch) = Done"
| "neutral (OpUnsubscribe ch) = Done"

fun on_subscriber :: "redis_op \<Rightarrow> bool" where
  "on_subscriber (OpSubscribe ch) = True"
| "on_subscriber (OpUnsubscribe ch) = True"
| "on_subscriber _ = False"

definition unavailable :: "redis \<Rightarrow> redis_op \<Rightarrow> bool" where
  "unavailable r op = ((if on_subscriber op then subscriber r else client r) \<noteq> Connected)"

definition same_server :: "redis \<Rightarrow> redis \<Rightarrow> bool" where
  "same_server r r' = (kv r' = kv r \<and> channels r' = channels r \<and> published r' = published r)"

section \<open>RateLimitService (rate-limit.service.ts)\<close>

record RateLimitRule =
  windowMs :: int
  maxRequests :: int

record RateLimitResult =
  allowed :: bool
  totalRequests :: int
  remainingRequests :: int
  resetTime :: int
  retryAfter :: "int option"

text \<open>
  \<open>parseInt\<close> of the stored string: the counter's value, and NaN (\<open>None\<close>) for a
  string that is the JSON text of an object.
\<close>

definition windowKey :: "key \<Rightarrow> int \<Rightarrow> key" where
  "windowKey k windowStart = k @ '':'' @ show_int windowStart"

definition getCurrentCount :: "redis \<Rightarrow> int \<Rightarrow> key \<Rightarrow> int \<Rightarrow> exn + int option" where
  "getCurrentCount r now k windowStart =
     (case redis_get r now (windowKey k windowStart) of
        Inl e \<Rightarrow> Inl e
      | Inr None \<Rightarrow> Inr (Some 0)
      | Inr (Some (RCount n)) \<Rightarrow> Inr (Some n)
      | Inr (Some _) \<Rightarrow> Inr None)"

definition checkRateLimit :: "redis \<Rightarrow> int \<Rightarrow> key \<Rightarrow> RateLimitRule \<Rightarrow> RateLimitResult" where
  "checkRateLimit r now k rule =
     (let windowStart = (now div windowMs rule) * windowMs rule;
          windowEnd = windowStart + windowMs rule;
          reset = ceil_div windowEnd 1000
      in case getCurrentCount r now k windowStart of
           Inr currentCount \<Rightarrow>
             (let ok = (case currentCount of None \<Rightarrow> False | Some n \<Rightarrow> n < maxRequests rule);
                  remaining = (case currentCount of None \<Rightarrow> 0
                               | Some n \<Rightarrow> max 0 (maxRequests rule - n - 1))
              in \<lparr>allowed = ok, totalRequests = maxRequests rule,
                  remainingRequests = (if ok then remaining else 0), resetTime = reset,
                  retryAfter = (if \<not> ok then Some (ceil_div (windowEnd - now) 1000) else None)\<rparr>)
         | Inl e \<Rightarrow>
             \<lparr>allowed = True, totalRequests = maxRequests rule,
              remainingRequests = maxRequests rule - 1,
              resetTime = ceil_div (now + windowMs rule) 1000, retryAfter = None\<rparr>)"

definition incrementCount :: "redis \<Rightarrow> int \<Rightarrow> key \<Rightarrow> int \<Rightarrow> int \<Rightarrow> exn + (int \<times> redis)" where
  "incrementCount r now k windowStart windowMs' =
     (let wk = windowKey k windowStart;
          ttl = ceil_div windowMs' 1000 + 1
      in case redis_incr r now wk of
           Inl e \<Rightarrow> Inl e
         | Inr (count, r1) \<Rightarrow>
             if count = 1 then
               (case redis_expire r1 now wk ttl of
                  Inl e \<Rightarrow> Inl e
                | Inr (b, r2) \<Rightarrow> Inr (count, r2))
             else Inr (count, r1))"

definition recordRequest :: "redis \<Rightarrow> int \<Rightarrow> key \<Rightarrow> RateLimitRule \<Rightarrow> redis" where
  "recordRequest r now k rule =
     (let windowStart = (now div windowMs rule) * windowMs rule
      in case incrementCount r now k windowStart (windowMs rule) of
           Inl e \<Rightarrow> r
         | Inr (count, r') \<Rightarrow> r')"

text \<open>
  A caller's use of one rule: check, and record when admitted (the gateway and the
  middleware both record only after an admitting check). \<open>serve\<close> runs it for a list of
  request times and returns the results in order.
\<close>

definition request :: "redis \<Rightarrow> int \<Rightarrow> key \<Rightarrow> RateLimitRule \<Rightarrow> RateLimitResult \<times> redis" where
  "request r now k rule =
     (let res = checkRateLimit r now k rule
      in (res, if allowed res then recordRequest r now k rule else r))"

fun serve :: "redis \<Rightarrow> key \<Rightarrow> RateLimitRule \<Rightarrow> int list \<Rightarrow> RateLimitResult list \<times> redis" where
  "serve r k rule [] = ([], r)"
| "serve r k rule (t # ts) =
     (let (res, r1) = request r t k rule;
          (rest, r2) = serve r1 k rule ts
      in (res # rest, r2))"

section \<open>SessionService (session.service.ts)\<close>

record SessionConfig =
  sessionTtl :: int
  cleanupInterval :: int
  maxSessionsPerIP :: int
  extendOnActivity :: bool

record SessionUpdateOptions =
  upd_lastActivity :: "int option"
  upd_messageCount :: "int option"
  upd_isActive :: "bool option"

definition getSessionKey :: "string \<Rightarrow> key" where
  "getSessionKey sid = ''session:'' @ sid"

definition getIPKey :: "string \<Rightarrow> key" where
  "getIPKey ip = ''session:ip:'' @ ip"

definition expired :: "SessionConfig \<Rightarrow> int \<Rightarrow> SessionData \<Rightarrow> bool" where
  \<comment> \<open>\<open>now - sessionData.lastActivity > this.config.ttl * 1000\<close>\<close>
  "expired cfg now sd = (now - lastActivity sd > sessionTtl cfg * 1000)"

text \<open>
  \<open>getSession\<close> awaits \<open>deleteSession\<close> for an expired record, and \<open>deleteSession\<close>
  awaits \<open>getSession\<close> first. The first argument bounds the depth of these calls; the
  result \<open>None\<close> says that the bound was reached. A result \<open>Some\<close> carries what the
  promise resolves to and the store after the call.
\<close>

fun getSession :: "nat \<Rightarrow> SessionConfig \<Rightarrow> redis \<Rightarrow> int \<Rightarrow> string \<Rightarrow> (SessionData option \<times> redis) option"
  and deleteSession :: "nat \<Rightarrow> SessionConfig \<Rightarrow> redis \<Rightarrow> int \<Rightarrow> string \<Rightarrow> (bool \<times> redis) option"
where
  "getSession 0 cfg r now sid = None"
| "getSession (Suc n) cfg r now sid =
     (case redis_get r now (getSessionKey sid) of
        Inl e \<Rightarrow> Some (None, r)
      | Inr None \<Rightarrow> Some (None, r)
      | Inr (Some (RSession sd)) \<Rightarrow>
          if expired cfg now sd then
            (case deleteSession n cfg r now sid of
               None \<Rightarrow> None
             | Some (b, r') \<Rightarrow> Some (None, r'))
          else Some (Some sd, r)
      | Inr (Some _) \<Rightarrow> Some (None, r))"
| "deleteSession 0 cfg r now sid = None"
| "deleteSession (Suc n) cfg r now sid =
     (case getSession n cfg r now sid of
        None \<Rightarrow> None
      | Some (found, r1) \<Rightarrow>
          (case (case found of
                   None \<Rightarrow> Inr (0, r1)
                 | Some sd \<Rightarrow> srem r1 now (getIPKey (ipAddress sd)) [sid]) of
             Inl e \<Rightarrow> Some (False, r1)
           | Inr (m, r2) \<Rightarrow>
               (case redis_del r2 now [getSessionKey sid] of
                  Inl e \<Rightarrow> Some (False, r2)
                | Inr (result, r3) \<Rightarrow> Some (result > 0, r3))))"

text \<open>The loop of \<open>getSessionCountByIP\<close> over the members of the address index.\<close>

fun countValid :: "nat \<Rightarrow> SessionConfig \<Rightarrow> redis \<Rightarrow> int \<Rightarrow> key \<Rightarrow> string list \<Rightarrow> int
    \<Rightarrow> ((exn + int) \<times> redis) option" where
  "countValid n cfg r now ipKey [] validCount = Some (Inr validCount, r)"
| "countValid n cfg r now ipKey (sid # sids) validCount =
     (case getSession n cfg r now sid of
        None \<Rightarrow> None
      | Some (Some sd, r1) \<Rightarrow> countValid n cfg r1 now ipKey sids (validCount + 1)
      | Some (None, r1) \<Rightarrow>
          (case srem r1 now ipKey [sid] of
             Inl e \<Rightarrow> Some (Inl e, r1)
           | Inr (m, r2) \<Rightarrow> countValid n cfg r2 now ipKey sids validCount))"

definition getSessionCountByIP :: "nat \<Rightarrow> SessionConfig \<Rightarrow> redis \<Rightarrow> int \<Rightarrow> string
    \<Rightarrow> (int \<times> redis) option" where
  "getSessionCountByIP n cfg r now ip =
     (case smembers r now (getIPKey ip) of
        Inl e \<Rightarrow> Some (0, r)
      | Inr sessionIds \<Rightarrow>
          (case countValid n cfg r now (getIPKey ip) sessionIds 0 of
             None \<Rightarrow> None
           | Some (Inl e, r') \<Rightarrow> Some (0, r')
           | Some (Inr validCount, r') \<Rightarrow> Some (validCount, r')))"

definition createSession :: "nat \<Rightarrow> SessionConfig \<Rightarrow> redis \<Rightarrow> int \<Rightarrow> string \<Rightarrow> string \<Rightarrow> string
    \<Rightarrow> ((exn + SessionData) \<times> redis) option" where
  "createSession n cfg r now sid ip ua =
     (case getSessionCountByIP n cfg r now ip of
        None \<Rightarrow> None
      | Some (ipSessionCount, r1) \<Rightarrow>
          if ipSessionCount \<ge> maxSessionsPerIP cfg then Some (Inl TooManySessions, r1)
          else
            (let sessionData = \<lparr>sessionId = sid, createdAt = now, lastActivity = now,
                   ipAddress = ip, userAgent = ua, messageCount = 0, isActive = True\<rparr>
             in case setWithExpiry r1 now (getSessionKey sid) (RSession sessionData) (sessionTtl cfg) of
                  Inl e \<Rightarrow> Some (Inl e, r1)
                | Inr r2 \<Rightarrow>
                    (case sadd r2 now (getIPKey ip) [sid] of
                       Inl e \<Rightarrow> Some (Inl e, r2)
                     | Inr (a, r3) \<Rightarrow>
                         (case redis_expire r3 now (getIPKey ip) (sessionTtl cfg) of
                            Inl e \<Rightarrow> Some (Inl e, r3)
                          | Inr (b, r4) \<Rightarrow> Some (Inr sessionData, r4)))))"

definition applyUpdates :: "int \<Rightarrow> SessionData \<Rightarrow> SessionUpdateOptions \<Rightarrow> SessionData" where
  \<comment> \<open>\<open>{...sessionData, ...updates, lastActivity: updates.lastActivity || Date.now()}\<close>\<close>
  "applyUpdates now sd u =
     sd\<lparr>messageCount := (case upd_messageCount u of None \<Rightarrow> messageCount sd | Some c \<Rightarrow> c),
        isActive := (case upd_isActive u of None \<Rightarrow> isActive sd | Some a \<Rightarrow> a),
        lastActivity := (case upd_lastActivity u of
                           None \<Rightarrow> now
                         | Some t \<Rightarrow> if t = 0 then now else t)\<rparr>"

definition updateSession :: "nat \<Rightarrow> SessionConfig \<Rightarrow> redis \<Rightarrow> int \<Rightarrow> string \<Rightarrow> SessionUpdateOptions
    \<Rightarrow> ((exn + SessionData option) \<times> redis) option" where
  "updateSession n cfg r now sid u =
     (case getSession n cfg r now sid of
        None \<Rightarrow> None
      | Some (None, r1) \<Rightarrow> Some (Inr None, r1)
      | Some (Some sd, r1) \<Rightarrow>
          (let updatedSession = applyUpdates now sd u
           in case (if extendOnActivity cfg
                    then setWithExpiry r1 now (getSessionKey sid) (RSession updatedSession) (sessionTtl cfg)
                    else redis_set r1 now (getSessionKey sid) (RSession updatedSession) None) of
                Inl e \<Rightarrow> Some (Inl e, r1)
              | Inr r2 \<Rightarrow> Some (Inr (Some updatedSession), r2)))"

definition validateSession :: "nat \<Rightarrow> SessionConfig \<Rightarrow> redis \<Rightarrow> int \<Rightarrow> string \<Rightarrow> string option
    \<Rightarrow> (bool \<times> redis) option" where
  "validateSession n cfg r now sid ip =
     (case getSession n cfg r now sid of
        None \<Rightarrow> None
      | Some (None, r1) \<Rightarrow> Some (False, r1)
      | Some (Some sd, r1) \<Rightarrow>
          if \<not> isActive sd then Some (False, r1)
          else if truthy ip \<and> ipAddress sd \<noteq> the ip then Some (False, r1)
          else Some (True, r1))"

definition incrementMessageCount :: "nat \<Rightarrow> SessionConfig \<Rightarrow> redis \<Rightarrow> int \<Rightarrow> string
    \<Rightarrow> ((exn + int) \<times> redis) option" where
  "incrementMessageCount n cfg r now sid =
     (case getSession n cfg r now sid of
        None \<Rightarrow> None
      | Some (None, r1) \<Rightarrow> Some (Inl SessionNotFound, r1)
      | Some (Some sd, r1) \<Rightarrow>
          (let newCount = messageCount sd + 1
           in case updateSession n cfg r1 now sid
                     \<lparr>upd_lastActivity = Some now, upd_messageCount = Some newCount,
                      upd_isActive = None\<rparr> of
                None \<Rightarrow> None
              | Some (Inl e, r2) \<Rightarrow> Some (Inl e, r2)
              | Some (Inr s, r2) \<Rightarrow> Some (Inr newCount, r2)))"

text \<open>
  The sweep: every key matching \<open>session:*\<close> is read, and a record that is inactive or
  expired is deleted under the session id it stores. A key whose read or parse fails is
  skipped (the per-key try block).
\<close>

fun sweep :: "nat \<Rightarrow> SessionConfig \<Rightarrow> redis \<Rightarrow> int \<Rightarrow> key list \<Rightarrow> int \<Rightarrow> (int \<times> redis) option" where
  "sweep n cfg r now [] sessionsRemoved = Some (sessionsRemoved, r)"
| "sweep n cfg r now (k # ks) sessionsRemoved =
     (case redis_get r now k of
        Inr (Some (RSession sd)) \<Rightarrow>
          if \<not> isActive sd \<or> expired cfg now sd then
            (case deleteSession n cfg r now (sessionId sd) of
               None \<Rightarrow> None
             | Some (b, r1) \<Rightarrow> sweep n cfg r1 now ks (sessionsRemoved + 1))
          else sweep n cfg r now ks sessionsRemoved
      | _ \<Rightarrow> sweep n cfg r now ks sessionsRemoved)"

definition cleanupExpiredSessions :: "nat \<Rightarrow> SessionConfig \<Rightarrow> redis \<Rightarrow> int
    \<Rightarrow> ((int \<times> int) \<times> redis) option" where
  "cleanupExpiredSessions n cfg r now =
     (case redis_keys r now (getSessionKey ''*'') of
        Inl e \<Rightarrow> Some ((0, 0), r)
      | Inr sessionKeys \<Rightarrow>
          (case sweep n cfg r now sessionKeys 0 of
             None \<Rightarrow> None
           | Some (sessionsRemoved, r') \<Rightarrow>
               Some ((sessionsRemoved, int (length sessionKeys)), r')))"

text \<open>
  \<open>owned\<close> lists the session ids the reverse-lookup index holds for an address; \<open>owns\<close>
  says that an id names a stored, unexpired session of that address.
\<close>

definition owned :: "redis \<Rightarrow> int \<Rightarrow> string \<Rightarrow> string list" where
  "owned r now ip = (case lookup r now (getIPKey ip) of Some (RSet xs) \<Rightarrow> xs | _ \<Rightarrow> [])"

definition owns :: "SessionConfig \<Rightarrow> redis \<Rightarrow> int \<Rightarrow> string \<Rightarrow> string \<Rightarrow> bool" where
  "owns cfg r now ip sid =
     (case lookup r now (getSessionKey sid) of
        Some (RSession sd) \<Rightarrow> \<not> expired cfg now sd \<and> ipAddress sd = ip
      | _ \<Rightarrow> False)"

text \<open>
  \<open>no_stale\<close>: no session record that the store still holds has expired (by the check of
  \<open>getSession\<close>) at the time \<open>now\<close>.
\<close>

definition no_stale :: "SessionConfig \<Rightarrow> redis \<Rightarrow> int \<Rightarrow> bool" where
  "no_stale cfg r now =
     list_all (\<lambda>k. case lookup r now k of
                       Some (RSession sd) \<Rightarrow> \<not> expired cfg now sd
                     | _ \<Rightarrow> True)
       (map fst (kv r))"

definition DEFAULT_SESSION_CONFIG :: SessionConfig where
  "DEFAULT_SESSION_CONFIG =
     \<lparr>sessionTtl = 24 * 60 * 60, cleanupInterval = 60 * 60 * 1000, maxSessionsPerIP = 10,
      extendOnActivity = True\<rparr>"

text \<open>Example values: a configuration, and a store with two sessions of one address.\<close>

definition demo_config :: SessionConfig where
  "demo_config =
     \<lparr>sessionTtl = 3600, cleanupInterval = 3600000, maxSessionsPerIP = 2, extendOnActivity = False\<rparr>"

definition demo_session :: "string \<Rightarrow> int \<Rightarrow> SessionData" where
  "demo_session sid t =
     \<lparr>sessionId = sid, createdAt = t, lastActivity = t, ipAddress = ''10.0.0.7'',
      userAgent = ''Mozilla/5.0'', messageCount = 0, isActive = True\<rparr>"

definition demo_store :: redis where
  "demo_store =
     \<lparr>client = Connected, subscriber = Connected,
      kv = [(''session:s1'', RSession (demo_session ''s1'' 1000), Some 3601000),
            (''session:ip:10.0.0.7'', RSet [''s1'', ''s2''], Some 3602000),
            (''session:s2'', RSession (demo_session ''s2'' 2000), Some 3602000)],
      subscriptions = [], channels = [], published = []\<rparr>"

text \<open>
  Example values: a configuration that differs from the default one in its smaller numbers
  only, and the store before any session is created.
\<close>

definition cap_config :: SessionConfig where
  "cap_config =
     \<lparr>sessionTtl = 3600, cleanupInterval = 3600000, maxSessionsPerIP = 2, extendOnActivity = True\<rparr>"

definition empty_store :: redis where
  "empty_store =
     \<lparr>client = Connected, subscriber = Connected, kv = [], subscriptions = [], channels = [],
      published = []\<rparr>"

section \<open>The rules one request meets (rate-limit.service.ts, rate-limit middleware)\<close>

record RateLimitConfig =
  globalRule :: RateLimitRule
  endpoints :: "(string \<times> RateLimitRule) list"
  perIP :: RateLimitRule
  perSession :: RateLimitRule
  connectionsPerIP :: RateLimitRule
  messagesPerSession :: RateLimitRule
  whitelistedIPs :: "string list"
  healthCheckEndpoints :: "string list"

definition DEFAULT_RATE_LIMIT_CONFIG :: RateLimitConfig where
  "DEFAULT_RATE_LIMIT_CONFIG =
     \<lparr>globalRule = \<lparr>windowMs = 15 * 60 * 1000, maxRequests = 1000\<rparr>,
      endpoints =
        [(''GET /health'', \<lparr>windowMs = 1 * 60 * 1000, maxRequests = 60\<rparr>),
         (''GET /health/*'', \<lparr>windowMs = 1 * 60 * 1000, maxRequests = 30\<rparr>),
         (''POST /agent/chat'', \<lparr>windowMs = 1 * 60 * 1000, maxRequests = 20\<rparr>),
         (''GET /agent/chat/history/*'', \<lparr>windowMs = 1 * 60 * 1000, maxRequests = 10\<rparr>),
         (''POST /documents/ingest'', \<lparr>windowMs = 5 * 60 * 1000, maxRequests = 5\<rparr>),
         (''POST /documents/ingest/file'', \<lparr>windowMs = 5 * 60 * 1000, maxRequests = 3\<rparr>),
         (''GET /documents'', \<lparr>windowMs = 1 * 60 * 1000, maxRequests = 30\<rparr>),
         (''POST /scrape'', \<lparr>windowMs = 10 * 60 * 1000, maxRequests = 2\<rparr>)],
      perIP = \<lparr>windowMs = 15 * 60 * 1000, maxRequests = 500\<rparr>,
      perSession = \<lparr>windowMs = 1 * 60 * 1000, maxRequests = 30\<rparr>,
      connectionsPerIP = \<lparr>windowMs = 1 * 60 * 1000, maxRequests = 10\<rparr>,
      messagesPerSession = \<lparr>windowMs = 1 * 60 * 1000, maxRequests = 25\<rparr>,
      whitelistedIPs = [''127.0.0.1'', ''::1''],
      healthCheckEndpoints = [''/health'', ''/health/redis'', ''/health/agent'',
        ''/health/scraper'', ''/health/document'', ''/health/session'']\<rparr>"

definition startsWith :: "string \<Rightarrow> string \<Rightarrow> bool" where
  "startsWith s p = (take (length p) s = p)"

definition getIPKey_rl :: "string \<Rightarrow> key" where
  "getIPKey_rl ipAddress' = ''rate_limit:ip:'' @ ipAddress'"

definition getSessionKey_rl :: "string \<Rightarrow> key" where
  "getSessionKey_rl sid = ''rate_limit:session:'' @ sid"

definition alnum :: "char \<Rightarrow> bool" where
  "alnum c = (let n = (of_char c :: nat)
              in (48 \<le> n \<and> n \<le> 57) \<or> (65 \<le> n \<and> n \<le> 90) \<or> (97 \<le> n \<and> n \<le> 122))"

definition getEndpointKey :: "string \<Rightarrow> string \<Rightarrow> key" where
  \<comment> \<open>\<open>endpointKey.replace(/[^a-zA-Z0-9]/g, '_')\<close>\<close>
  "getEndpointKey endpointKey identifier =
     ''rate_limit:endpoint:'' @ map (\<lambda>c. if alnum c then c else CHR ''_'') endpointKey
       @ '':'' @ identifier"

definition getGlobalKey :: "string \<Rightarrow> key" where
  "getGlobalKey identifier = ''rate_limit:global:'' @ identifier"

definition getWebSocketConnectionKey :: "string \<Rightarrow> key" where
  "getWebSocketConnectionKey ipAddress' = ''rate_limit:ws_conn:'' @ ipAddress'"

definition getWebSocketMessageKey :: "string \<Rightarrow> key" where
  "getWebSocketMessageKey sid = ''rate_limit:ws_msg:'' @ sid"

definition getEndpointRule :: "RateLimitConfig \<Rightarrow> string \<Rightarrow> RateLimitRule option" where
  \<comment> \<open>A direct match first, then the first pattern ending in \<open>*\<close> whose prefix matches.\<close>
  "getEndpointRule cfg endpointKey =
     (case map_of (endpoints cfg) endpointKey of
        Some rule \<Rightarrow> Some rule
      | None \<Rightarrow>
          (case filter (\<lambda>(pat, rule). pat \<noteq> [] \<and> last pat = CHR ''*''
                          \<and> startsWith endpointKey (butlast pat)) (endpoints cfg) of
             [] \<Rightarrow> None
           | (pat, rule) # rest \<Rightarrow> Some rule))"

definition checkIPRateLimit :: "RateLimitConfig \<Rightarrow> redis \<Rightarrow> int \<Rightarrow> string \<Rightarrow> RateLimitResult" where
  "checkIPRateLimit cfg r now ipAddress' = checkRateLimit r now (getIPKey_rl ipAddress') (perIP cfg)"

definition checkSessionRateLimit :: "RateLimitConfig \<Rightarrow> redis \<Rightarrow> int \<Rightarrow> string \<Rightarrow> RateLimitResult" where
  "checkSessionRateLimit cfg r now sid = checkRateLimit r now (getSessionKey_rl sid) (perSession cfg)"

definition checkGlobalRateLimit :: "RateLimitConfig \<Rightarrow> redis \<Rightarrow> int \<Rightarrow> string \<Rightarrow> RateLimitResult" where
  "checkGlobalRateLimit cfg r now identifier =
     checkRateLimit r now (getGlobalKey identifier) (globalRule cfg)"

definition checkEndpointRateLimit :: "RateLimitConfig \<Rightarrow> redis \<Rightarrow> int \<Rightarrow> string \<Rightarrow> string \<Rightarrow> string
    \<Rightarrow> RateLimitResult" where
  "checkEndpointRateLimit cfg r now method path identifier =
     (let endpointKey = method @ '' '' @ path
      in case getEndpointRule cfg endpointKey of
           None \<Rightarrow> checkGlobalRateLimit cfg r now identifier
         | Some rule \<Rightarrow> checkRateLimit r now (getEndpointKey endpointKey identifier) rule)"

definition recordEndpointRequest :: "RateLimitConfig \<Rightarrow> redis \<Rightarrow> int \<Rightarrow> string \<Rightarrow> string \<Rightarrow> string
    \<Rightarrow> redis" where
  "recordEndpointRequest cfg r now method path identifier =
     (let endpointKey = method @ '' '' @ path
      in case getEndpointRule cfg endpointKey of
           None \<Rightarrow> recordRequest r now (getGlobalKey identifier) (globalRule cfg)
         | Some rule \<Rightarrow> recordRequest r now (getEndpointKey endpointKey identifier) rule)"

definition checkWebSocketMessageLimit :: "RateLimitConfig \<Rightarrow> redis \<Rightarrow> int \<Rightarrow> string \<Rightarrow> RateLimitResult" where
  "checkWebSocketMessageLimit cfg r now sid =
     checkRateLimit r now (getWebSocketMessageKey sid) (messagesPerSession cfg)"

definition recordWebSocketMessage :: "RateLimitConfig \<Rightarrow> redis \<Rightarrow> int \<Rightarrow> string \<Rightarrow> redis" where
  "recordWebSocketMessage cfg r now sid =
     recordRequest r now (getWebSocketMessageKey sid) (messagesPerSession cfg)"

definition isIPWhitelisted :: "RateLimitConfig \<Rightarrow> string \<Rightarrow> bool" where
  "isIPWhitelisted cfg ipAddress' = (ipAddress' \<in> set (whitelistedIPs cfg))"

definition shouldSkipEndpoint :: "RateLimitConfig \<Rightarrow> string \<Rightarrow> bool" where
  "shouldSkipEndpoint cfg path =
     list_ex (\<lambda>endpoint. path = endpoint \<or> startsWith path (endpoint @ ''/''))
       (healthCheckEndpoints cfg)"

subsection \<open>RateLimitMiddleware.use\<close>

definition pick :: "RateLimitResult \<Rightarrow> RateLimitResult \<Rightarrow> RateLimitResult" where
  \<comment> \<open>The callback of \<open>results.reduce\<close>; both of its branches return the same expression.\<close>
  "pick prev current =
     (if \<not> allowed prev \<or> \<not> allowed current then
        (if remainingRequests prev \<le> remainingRequests current then prev else current)
      else
        (if remainingRequests prev \<le> remainingRequests current then prev else current))"

definition reduce :: "('a \<Rightarrow> 'a \<Rightarrow> 'a) \<Rightarrow> 'a list \<Rightarrow> exn + 'a" where
  \<comment> \<open>\<open>Array.prototype.reduce\<close> without an initial value: a TypeError on the empty array.\<close>
  "reduce f xs = (case xs of [] \<Rightarrow> Inl TypeError | x # rest \<Rightarrow> Inr (foldl f x rest))"

datatype verdict = Next "RateLimitResult option" | TooManyRequests RateLimitResult

definition use :: "RateLimitConfig \<Rightarrow> redis \<Rightarrow> int \<Rightarrow> string \<Rightarrow> string \<Rightarrow> string \<Rightarrow> string option
    \<Rightarrow> verdict \<times> redis" where
  "use cfg r now method path ipAddress' sid =
     (if isIPWhitelisted cfg ipAddress' then (Next None, r)
      else if shouldSkipEndpoint cfg path then (Next None, r)
      else
        (let ipResult = checkIPRateLimit cfg r now ipAddress';
             sessionResult = (if truthy sid then [checkSessionRateLimit cfg r now (the sid)] else []);
             endpointResult = checkEndpointRateLimit cfg r now method path ipAddress';
             results = [ipResult] @ sessionResult @ [endpointResult]
         in case reduce pick results of
              Inl e \<Rightarrow> (Next None, r)
            | Inr mostRestrictive \<Rightarrow>
                if \<not> allowed mostRestrictive then (TooManyRequests mostRestrictive, r)
                else
                  (let r1 = recordRequest r now (getIPKey_rl ipAddress') (perIP cfg);
                       r2 = recordEndpointRequest cfg r1 now method path ipAddress';
                       r3 = (if truthy sid
                             then recordRequest r2 now (getSessionKey_rl (the sid)) (perSession cfg)
                             else r2)
                   in (Next (Some mostRestrictive), r3))))"

definition nearly_full_store :: redis where
  \<comment> \<open>An address one request short of its quota, and a session that has used all of its own.\<close>
  "nearly_full_store =
     \<lparr>client = Connected, subscriber = Connected,
      kv = [(''rate_limit:ip:10.0.0.7:0'', RCount 499, Some 901000),
            (''rate_limit:session:abc:120000'', RCount 30, Some 181000)],
      subscriptions = [], channels = [], published = []\<rparr>"

section \<open>CacheService (cache.service.ts)\<close>

subsection \<open>JSON text\<close>

text \<open>
  \<open>JSON.stringify\<close> on a JSON value. Strings are sequences of UTF-8 bytes, so that
  \<open>Buffer.byteLength(s, 'utf8')\<close> is \<open>length s\<close>.
\<close>

definition hex_digit :: "nat \<Rightarrow> char" where
  "hex_digit d = (if d < 10 then char_of (48 + d) else char_of (87 + d))"

definition escape_char :: "char \<Rightarrow> string" where
  "escape_char c =
     (if c = CHR 0x22 then [CHR 0x5C, CHR 0x22]
      else if c = CHR 0x5C then [CHR 0x5C, CHR 0x5C]
      else if c = CHR 0x08 then [CHR 0x5C, CHR ''b'']
      else if c = CHR 0x09 then [CHR 0x5C, CHR ''t'']
      else if c = CHR 0x0A then [CHR 0x5C, CHR ''n'']
      else if c = CHR 0x0C then [CHR 0x5C, CHR ''f'']
      else if c = CHR 0x0D then [CHR 0x5C, CHR ''r'']
      else if (of_char c :: nat) < 32 then
        [CHR 0x5C, CHR ''u'', CHR ''0'', CHR ''0'', hex_digit (of_char c div 16),
         hex_digit (of_char c mod 16)]
      else [c])"

definition quote :: "string \<Rightarrow> string" where
  "quote s = CHR 0x22 # concat (map escape_char s) @ [CHR 0x22]"

fun join :: "string \<Rightarrow> string list \<Rightarrow> string" where
  "join sep [] = []"
| "join sep [x] = x"
| "join sep (x # y # ys) = x @ sep @ join sep (y # ys)"

fun stringify :: "json \<Rightarrow> string" where
  "stringify JNull = ''null''"
| "stringify (JBool b) = (if b then ''true'' else ''false'')"
| "stringify (JNum i) = show_int i"
| "stringify (JStr s) = quote s"
| "stringify (JArr xs) = ''['' @ join '','' (map stringify xs) @ '']''"
| "stringify (JObj kvs) =
     ''{'' @ join '','' (map (\<lambda>kv. quote (fst kv) @ '':'' @ stringify (snd kv)) kvs) @ ''}''"

definition getSize :: "string \<Rightarrow> nat" where
  "getSize data = length data"

subsection \<open>Configuration, metrics and the compression transform\<close>

record CacheConfig =
  defaultTtl :: int
  compressionThreshold :: nat
  enableCompression :: bool
  maxValueSize :: nat

definition defaultCacheConfig :: CacheConfig where
  "defaultCacheConfig =
     \<lparr>defaultTtl = 300, compressionThreshold = 1024, enableCompression = True,
      maxValueSize = 10 * 1024 * 1024\<rparr>"

text \<open>The counters of CacheMetrics; \<open>hitRate\<close> is \<open>hits / (hits + misses)\<close> of these.\<close>

record CacheMetrics =
  hits :: nat
  misses :: nat
  sets :: nat
  deletes :: nat
  operations :: nat

text \<open>
  \<open>zlib.gzip\<close> and \<open>zlib.gunzip\<close> (with the base64 coding around them) are library
  functions: the model takes them as the two fields of a \<open>codec\<close>. \<open>deflate\<close> is gzip
  followed by base64; \<open>inflate\<close> is base64 decoding followed by gunzip, \<open>None\<close> when
  it throws.
\<close>

record codec =
  deflate :: "string \<Rightarrow> string"
  inflate :: "string \<Rightarrow> string option"

definition compress :: "codec \<Rightarrow> string \<Rightarrow> string" where
  "compress z data = deflate z data"

definition decompress :: "codec \<Rightarrow> string \<Rightarrow> string" where
  \<comment> \<open>The catch block returns the data as it came.\<close>
  "decompress z data = (case inflate z data of None \<Rightarrow> data | Some s \<Rightarrow> s)"

record cache =
  metrics :: CacheMetrics
  backend :: redis

subsection \<open>The private store helpers, which use the driver's client directly\<close>

definition CACHE_VERSION :: string where
  "CACHE_VERSION = ''1.0''"

definition cacheKey :: "string \<Rightarrow> key" where
  "cacheKey k = CACHE_VERSION @ '':'' @ k"

definition getFromRedis :: "redis \<Rightarrow> int \<Rightarrow> key \<Rightarrow> rvalue option" where
  "getFromRedis r now k =
     (if client r = Absent then None
      else case cmd_get r now k of Inl e \<Rightarrow> None | Inr v \<Rightarrow> v)"

definition setToRedis :: "redis \<Rightarrow> int \<Rightarrow> key \<Rightarrow> rvalue \<Rightarrow> int \<Rightarrow> exn + redis" where
  "setToRedis r now k v ttl =
     (if client r = Absent then Inl NoRedisClient else cmd_setex r now k ttl v)"

definition deleteFromRedis :: "redis \<Rightarrow> int \<Rightarrow> key \<Rightarrow> exn + redis" where
  "deleteFromRedis r now k =
     (if client r = Absent then Inr r
      else case cmd_del r now [k] of Inl e \<Rightarrow> Inl e | Inr (n, r') \<Rightarrow> Inr r')"

definition isExpired :: "int \<Rightarrow> CacheEntry \<Rightarrow> bool" where
  "isExpired now entry = (now - entry_createdAt entry > entry_ttl entry * 1000)"

subsection \<open>set, delete, get\<close>

definition finalTtl :: "CacheConfig \<Rightarrow> int option \<Rightarrow> int" where
  \<comment> \<open>\<open>ttl || this.config.defaultTtl\<close>\<close>
  "finalTtl cfg ttl = (case ttl of None \<Rightarrow> defaultTtl cfg | Some t \<Rightarrow> if t = 0 then defaultTtl cfg else t)"

definition cache_set :: "CacheConfig \<Rightarrow> codec \<Rightarrow> int \<Rightarrow> cache \<Rightarrow> string \<Rightarrow> json \<Rightarrow> int option
    \<Rightarrow> (exn + unit) \<times> cache" where
  "cache_set cfg z now c k v ttl =
     (let c1 = c\<lparr>metrics := (metrics c)\<lparr>operations := operations (metrics c) + 1,
                                          sets := sets (metrics c) + 1\<rparr>\<rparr>;
          ttl' = finalTtl cfg ttl;
          size = getSize (stringify v)
      in if size > maxValueSize cfg then (Inl ValueTooLarge, c1)
         else
           (let squeeze = (enableCompression cfg \<and> size > compressionThreshold cfg);
                serializedValue = (if squeeze then JStr (compress z (stringify v)) else v);
                size' = (if squeeze then getSize (compress z (stringify v)) else size);
                entry = \<lparr>entry_value = serializedValue, entry_ttl = ttl',
                         compressed = squeeze, entry_size = size',
                         entry_createdAt = now, lastAccessed = now\<rparr>
            in case setToRedis (backend c1) now (cacheKey k) (REntry entry) ttl' of
                 Inl e \<Rightarrow> (Inl e, c1)
               | Inr r' \<Rightarrow> (Inr (), c1\<lparr>backend := r'\<rparr>)))"

definition cache_delete :: "int \<Rightarrow> cache \<Rightarrow> string \<Rightarrow> (exn + unit) \<times> cache" where
  "cache_delete now c k =
     (let c1 = c\<lparr>metrics := (metrics c)\<lparr>operations := operations (metrics c) + 1,
                                          deletes := deletes (metrics c) + 1\<rparr>\<rparr>
      in case deleteFromRedis (backend c1) now (cacheKey k) of
           Inl e \<Rightarrow> (Inl e, c1)
         | Inr r' \<Rightarrow> (Inr (), c1\<lparr>backend := r'\<rparr>))"

definition miss :: "cache \<Rightarrow> json \<times> cache" where
  \<comment> \<open>\<open>this.metrics.misses++; return null\<close>\<close>
  "miss c = (JNull, c\<lparr>metrics := (metrics c)\<lparr>misses := misses (metrics c) + 1\<rparr>\<rparr>)"

definition cache_get :: "codec \<Rightarrow> int \<Rightarrow> cache \<Rightarrow> string \<Rightarrow> json \<times> cache" where
  "cache_get z now c k =
     (let c1 = c\<lparr>metrics := (metrics c)\<lparr>operations := operations (metrics c) + 1\<rparr>\<rparr>
      in case getFromRedis (backend c1) now (cacheKey k) of
           None \<Rightarrow> miss c1
         | Some (REntry entry) \<Rightarrow>
             if isExpired now entry then
               (case cache_delete now c1 k of (res, c2) \<Rightarrow> miss c2)
             else
               (case setToRedis (backend c1) now (cacheKey k)
                       (REntry (entry\<lparr>lastAccessed := now\<rparr>)) (entry_ttl entry) of
                  Inl e \<Rightarrow> miss c1
                | Inr r' \<Rightarrow>
                    (let c2 = c1\<lparr>backend := r',
                                 metrics := (metrics c1)\<lparr>hits := hits (metrics c1) + 1\<rparr>\<rparr>;
                         val = entry_value entry
                     in (if compressed entry
                         then (case val of JStr s \<Rightarrow> JStr (decompress z s) | _ \<Rightarrow> val)
                         else val, c2)))
         | Some _ \<Rightarrow> miss c1)"

text \<open>
  A run-length coder, to have a transform that shrinks some texts and grows others:
  each run of up to 255 equal bytes becomes its length and the byte.
\<close>

fun rle :: "string \<Rightarrow> string" where
  "rle [] = []"
| "rle (c # cs) =
     (case rle cs of
        n # d # rest \<Rightarrow>
          if d = c \<and> (of_char n :: nat) < 255 then char_of (of_char n + 1 :: nat) # d # rest
          else CHR 0x01 # c # n # d # rest
      | _ \<Rightarrow> [CHR 0x01, c])"

fun unrle :: "string \<Rightarrow> string" where
  "unrle (n # c # rest) = replicate (of_char n) c @ unrle rest"
| "unrle _ = []"

definition run_length :: codec where
  "run_length = \<lparr>deflate = rle, inflate = (\<lambda>s. if even (length s) then Some (unrle s) else None)\<rparr>"

definition tiny_config :: CacheConfig where
  "tiny_config =
     \<lparr>defaultTtl = 300, compressionThreshold = 8, enableCompression = True, maxValueSize = 16\<rparr>"

definition empty_cache :: cache where
  "empty_cache =
     \<lparr>metrics = \<lparr>hits = 0, misses = 0, sets = 0, deletes = 0, operations = 0\<rparr>,
      backend = \<lparr>client = Connected, subscriber = Connected, kv = [], subscriptions = [],
                 channels = [], published = []\<rparr>\<rparr>"

section \<open>The chat gateway (ChatGateway, AgentService.sendMessage)\<close>

record ChatRequest =
  message :: "string option"
  req_sessionId :: "string option"
  useTools :: "bool option"
  maxTokens :: "int option"

record ChatResponse =
  response :: string
  resp_sessionId :: string
  sources :: "string list"
  toolCalls :: "string list"
  reasoning :: string

record ChatMessage =
  chat_sessionId :: string
  token :: string
  isDone :: bool
  chat_sources :: "string list option"
  chat_toolCalls :: "string list option"

record ErrorMessage =
  error :: bool
  code :: string
  error_message :: string
  timestamp :: int

text \<open>What the gateway emits to the requesting client's socket, on the events chat and error.\<close>

datatype emission = Chat ChatMessage | Error ErrorMessage

definition terminating :: "emission \<Rightarrow> bool" where
  \<comment> \<open>A chat message with \<open>done = true\<close>, or an error object.\<close>
  "terminating e = (case e of Chat m \<Rightarrow> isDone m | Error x \<Rightarrow> error x)"

subsection \<open>AgentService.sendMessage\<close>

text \<open>
  The gRPC client is outside the repository: the model takes its \<open>SendMessage\<close> as a
  function from the request to what becomes of the callback: it is called with an error,
  or with a reply whose fields may be missing, or it is never called. \<open>sendMessage\<close>
  passes no deadline and sets no timer, so that in the last case its promise never
  settles: the result \<open>None\<close>.
\<close>

record GrpcRequest =
  grpc_message :: "string option"
  grpc_session_id :: "string option"
  use_tools :: bool
  max_tokens :: int

record GrpcReply =
  reply_response :: "string option"
  reply_session_id :: "string option"
  reply_sources :: "string list option"
  reply_tool_calls :: "string list option"
  reply_reasoning :: "string option"

datatype grpc_outcome = GrpcError | GrpcOk GrpcReply | GrpcSilent

definition or_else :: "'a option \<Rightarrow> 'a \<Rightarrow> 'a" where
  "or_else x d = (case x of None \<Rightarrow> d | Some v \<Rightarrow> v)"

definition sendMessage :: "(GrpcRequest \<Rightarrow> grpc_outcome) \<Rightarrow> ChatRequest
    \<Rightarrow> (exn + ChatResponse) option" where
  "sendMessage grpc req =
     (case grpc \<lparr>grpc_message = message req, grpc_session_id = req_sessionId req,
                 use_tools = True,
                 max_tokens = (case maxTokens req of None \<Rightarrow> 4096
                               | Some t \<Rightarrow> if t = 0 then 4096 else t)\<rparr> of
        GrpcSilent \<Rightarrow> None
      | GrpcError \<Rightarrow> Some (Inl AgentFailure)
      | GrpcOk rep \<Rightarrow>
          Some (Inr \<lparr>response = or_else (reply_response rep) [],
               resp_sessionId = (if truthy (reply_session_id rep) then the (reply_session_id rep)
                                 else or_else (req_sessionId req) []),
               sources = or_else (reply_sources rep) [],
               toolCalls = or_else (reply_tool_calls rep) [],
               reasoning = or_else (reply_reasoning rep) []\<rparr>))"

subsection \<open>RedisService.publishChatToken\<close>

definition publishChatToken :: "redis \<Rightarrow> string \<Rightarrow> string \<Rightarrow> bool \<Rightarrow> exn + redis" where
  "publishChatToken r sid tok fin =
     publish r ''chat_tokens''
       (stringify (JObj [(''sessionId'', JStr sid), (''token'', JStr tok), (''done'', JBool fin)]))"

subsection \<open>ChatGateway.handleChatMessage\<close>

record Socket =
  socket_id :: string
  forwardedFor :: "string option"
  realIP :: "string option"
  address :: "string option"
  userAgentHeader :: "string option"

record gateway =
  gw_redis :: redis
  connectedClients :: "(string \<times> string) list"

text \<open>
  What one run of the handler leaves behind: the messages emitted on the requesting
  client's socket, in order, the gateway's state, and whether the handler has returned;
  \<open>returned = False\<close> says that it stays suspended at the await of the agent's reply.
\<close>

record outcome =
  emitted :: "emission list"
  gw :: gateway
  returned :: bool

definition whitespace :: "char \<Rightarrow> bool" where
  "whitespace c = (c \<in> set [CHR '' '', CHR 0x09, CHR 0x0A, CHR 0x0B, CHR 0x0C, CHR 0x0D])"

definition trim :: "string \<Rightarrow> string" where
  "trim s = rev (dropWhile whitespace (rev (dropWhile whitespace s)))"

definition getClientIP :: "Socket \<Rightarrow> string" where
  "getClientIP sock =
     (if truthy (forwardedFor sock)
      then trim (takeWhile (\<lambda>c. c \<noteq> CHR '','') (the (forwardedFor sock)))
      else if truthy (realIP sock) then the (realIP sock)
      else if truthy (address sock) then the (address sock)
      else ''127.0.0.1'')"

definition sendErrorToClient :: "int \<Rightarrow> string \<Rightarrow> string \<Rightarrow> emission" where
  "sendErrorToClient now c m = Error \<lparr>error = True, code = c, error_message = m, timestamp = now\<rparr>"

definition typingIndicator :: "string \<Rightarrow> emission" where
  "typingIndicator sid =
     Chat \<lparr>chat_sessionId = sid, token = [], isDone = False, chat_sources = None,
           chat_toolCalls = None\<rparr>"

text \<open>
  Lines 209 to 229: fetch or create the session, and validate one that exists against the
  client's address. \<open>Inl\<close> carries the error object of a rejection.
\<close>

definition resolveSession :: "nat \<Rightarrow> SessionConfig \<Rightarrow> redis \<Rightarrow> int \<Rightarrow> string \<Rightarrow> string \<Rightarrow> string
    \<Rightarrow> ((emission + unit) \<times> redis) option" where
  "resolveSession n scfg r now sid clientIP ua =
     (case getSession n scfg r now sid of
        None \<Rightarrow> None
      | Some (None, r1) \<Rightarrow>
          (case createSession n scfg r1 now sid clientIP ua of
             None \<Rightarrow> None
           | Some (Inl e, r2) \<Rightarrow>
               Some (Inl (sendErrorToClient now ''SESSION_ERROR'' ''Failed to create session''), r2)
           | Some (Inr s, r2) \<Rightarrow> Some (Inr (), r2))
      | Some (Some s, r1) \<Rightarrow>
          (case validateSession n scfg r1 now sid (Some clientIP) of
             None \<Rightarrow> None
           | Some (ok, r2) \<Rightarrow>
               if \<not> ok
               then Some (Inl (sendErrorToClient now ''SESSION_INVALID'' ''Invalid session''), r2)
               else Some (Inr (), r2)))"

text \<open>
  Lines 252 to 277: the typing indicator, the call of the agent, and what is emitted for
  its outcome, with whether the handler returns. A response with an empty text emits
  nothing; a call that never settles leaves the handler at its await.
\<close>

definition relay :: "(GrpcRequest \<Rightarrow> grpc_outcome) \<Rightarrow> int \<Rightarrow> ChatRequest \<Rightarrow> string
    \<Rightarrow> emission list \<times> bool" where
  "relay grpc now data sid =
     (case sendMessage grpc data of
        None \<Rightarrow> ([typingIndicator sid], False)
      | Some (Inl e) \<Rightarrow>
          ([typingIndicator sid,
            sendErrorToClient now ''AGENT_ERROR'' ''Failed to process chat message''], True)
      | Some (Inr resp) \<Rightarrow>
          if response resp \<noteq> [] then
            ([typingIndicator sid,
              Chat \<lparr>chat_sessionId = sid, token = response resp, isDone = True,
                    chat_sources = Some (sources resp), chat_toolCalls = Some (toolCalls resp)\<rparr>],
             True)
          else ([typingIndicator sid], True))"

definition handleChatMessage :: "nat \<Rightarrow> SessionConfig \<Rightarrow> RateLimitConfig \<Rightarrow> (GrpcRequest \<Rightarrow> grpc_outcome)
    \<Rightarrow> int \<Rightarrow> gateway \<Rightarrow> ChatRequest \<Rightarrow> Socket \<Rightarrow> outcome option" where
  "handleChatMessage n scfg rcfg grpc now g data sock =
     (if \<not> truthy (message data) \<or> \<not> truthy (req_sessionId data) then
        Some \<lparr>emitted = [sendErrorToClient now ''INVALID_REQUEST''
                            ''Message and sessionId are required''],
              gw = g, returned = True\<rparr>
      else
        (let sid = the (req_sessionId data);
             clientIP = getClientIP sock;
             ua = (if truthy (userAgentHeader sock) then the (userAgentHeader sock) else ''Unknown'')
         in case resolveSession n scfg (gw_redis g) now sid clientIP ua of
              None \<Rightarrow> None
            | Some (Inl rejection, r2) \<Rightarrow>
                Some \<lparr>emitted = [rejection], gw = g\<lparr>gw_redis := r2\<rparr>, returned = True\<rparr>
            | Some (Inr u, r2) \<Rightarrow>
                (let messageRateLimit = checkWebSocketMessageLimit rcfg r2 now sid
                 in if \<not> allowed messageRateLimit then
                      Some \<lparr>emitted =
                              [sendErrorToClient now ''MESSAGE_RATE_LIMIT''
                                 (''Too many messages. Try again in ''
                                  @ (case retryAfter messageRateLimit of
                                       None \<Rightarrow> ''undefined'' | Some s \<Rightarrow> show_int s)
                                  @ '' seconds.'')],
                            gw = g\<lparr>gw_redis := r2\<rparr>, returned = True\<rparr>
                    else
                      (let r3 = recordWebSocketMessage rcfg r2 now sid
                       in case incrementMessageCount n scfg r3 now sid of
                            None \<Rightarrow> None
                          | Some (counted, r4) \<Rightarrow>
                              Some \<lparr>emitted = fst (relay grpc now data sid),
                                    gw = g\<lparr>gw_redis := r4,
                                           connectedClients :=
                                             AList.update (socket_id sock) sid
                                               (connectedClients g)\<rparr>,
                                    returned = snd (relay grpc now data sid)\<rparr>))))"

text \<open>
  A message is admitted when it passes the three checks that stand before the typing
  indicator: the validation of the request (lines 198 to 201), the resolution of its
  session (lines 209 to 229) and the message quota of the session (lines 232 to 236).
\<close>

definition admitted :: "nat \<Rightarrow> SessionConfig \<Rightarrow> RateLimitConfig \<Rightarrow> int \<Rightarrow> gateway \<Rightarrow> ChatRequest
    \<Rightarrow> Socket \<Rightarrow> bool" where
  "admitted n scfg rcfg now g data sock =
     (truthy (message data) \<and> truthy (req_sessionId data)
      \<and> (case resolveSession n scfg (gw_redis g) now (the (req_sessionId data)) (getClientIP sock)
                  (if truthy (userAgentHeader sock) then the (userAgentHeader sock)
                   else ''Unknown'') of
             Some (Inr u, r2) \<Rightarrow>
               allowed (checkWebSocketMessageLimit rcfg r2 now (the (req_sessionId data)))
           | _ \<Rightarrow> False))"

text \<open>
  Example values: a first message on an empty store, an agent that answers, and one whose
  reply never comes.
\<close>

definition first_message :: ChatRequest where
  "first_message =
     \<lparr>message = Some ''hello'', req_sessionId = Some ''s1'', useTools = None, maxTokens = None\<rparr>"

definition browser :: Socket where
  "browser =
     \<lparr>socket_id = ''c1'', forwardedFor = None, realIP = None, address = Some ''10.0.0.7'',
      userAgentHeader = Some ''Mozilla/5.0''\<rparr>"

definition fresh_gateway :: gateway where
  "fresh_gateway =
     \<lparr>gw_redis = \<lparr>client = Connected, subscriber = Connected, kv = [], subscriptions = [],
                  channels = [''chat_tokens''], published = []\<rparr>,
      connectedClients = []\<rparr>"

definition answering :: "string \<Rightarrow> GrpcRequest \<Rightarrow> grpc_outcome" where
  "answering text req =
     GrpcOk \<lparr>reply_response = Some text, reply_session_id = grpc_session_id req,
             reply_sources = Some [], reply_tool_calls = Some [], reply_reasoning = None\<rparr>"

definition silent :: "GrpcRequest \<Rightarrow> grpc_outcome" where
  "silent req = GrpcSilent"

text \<open>The store after each stage of handling \<open>first_message\<close> at time 125000.\<close>

definition first_session :: "int \<Rightarrow> SessionData" where
  "first_session count =
     \<lparr>sessionId = ''s1'', createdAt = 125000, lastActivity = 125000, ipAddress = ''10.0.0.7'',
      userAgent = ''Mozilla/5.0'', messageCount = count, isActive = True\<rparr>"

definition first_session_store :: redis where
  "first_session_store =
     \<lparr>client = Connected, subscriber = Connected,
      kv = [(''session:s1'', RSession (first_session 0), Some 86525000),
            (''session:ip:10.0.0.7'', RSet [''s1''], Some 86525000)],
      subscriptions = [], channels = [''chat_tokens''], published = []\<rparr>"

definition counted_store :: "int \<Rightarrow> redis" where
  "counted_store count =
     \<lparr>client = Connected, subscriber = Connected,
      kv = [(''session:s1'', RSession (first_session count), Some 86525000),
            (''session:ip:10.0.0.7'', RSet [''s1''], Some 86525000),
            (''rate_limit:ws_msg:s1:120000'', RCount 1, Some 186000)],
      subscriptions = [], channels = [''chat_tokens''], published = []\<rparr>"

definition after_first_message :: gateway where
  "after_first_message = \<lparr>gw_redis = counted_store 1, connectedClients = [(''c1'', ''s1'')]\<rparr>"

section \<open>Decimal text and store updates\<close>

lemma digits_val_digits: "digits_val (digits n) = n"
proof (induction n rule: digits.induct)
  case (1 n)
  show ?case
  proof (cases "n < 10")
    case True
    then show ?thesis by (simp add: digits_val_def digit_char_def)
  next
    case False
    have "digits n = digits (n div 10) @ [digit_char (n mod 10)]" using False by simp
    moreover have "digits_val (digits (n div 10)) = n div 10" using 1 False by simp
    ultimately show ?thesis by (simp add: digits_val_def digit_char_def del: digits.simps)
  qed
qed

lemma show_int_inj: "0 \<le> a \<Longrightarrow> 0 \<le> b \<Longrightarrow> show_int a = show_int b \<Longrightarrow> a = b"
proof -
  assume a: "0 \<le> a" and b: "0 \<le> b" and e: "show_int a = show_int b"
  then have "digits (nat a) = digits (nat b)" by (simp add: show_int_def)
  then have "digits_val (digits (nat a)) = digits_val (digits (nat b))" by simp
  then have "nat a = nat b" by (simp only: digits_val_digits)
  with a b show ?thesis by simp
qed

lemma lookup_store:
  "lookup (store r k v e) t k' =
     (if k' = k then (case e of None \<Rightarrow> Some v | Some x \<Rightarrow> if t < x then Some v else None)
      else lookup r t k')"
  by (simp add: lookup_def store_def update_conv')

lemma map_of_store: "map_of (kv (store r k v e)) = (map_of (kv r))(k \<mapsto> (v, e))"
  by (simp add: store_def update_conv')

lemma map_of_remove: "map_of (kv (remove r k)) = (map_of (kv r))(k := None)"
  by (simp add: remove_def delete_conv')

lemma lookup_remove: "lookup (remove r k) t k' = (if k' = k then None else lookup r t k')"
  by (simp add: lookup_def map_of_remove)

lemma expiry_store: "expiry (store r k v e) k' = (if k' = k then e else expiry r k')"
  by (simp add: expiry_def map_of_store)

lemma store_fields [simp]:
  "client (store r k v e) = client r" "subscriber (store r k v e) = subscriber r"
  "published (store r k v e) = published r" "channels (store r k v e) = channels r"
  "subscriptions (store r k v e) = subscriptions r"
  by (simp_all add: store_def)

lemma remove_fields [simp]:
  "client (remove r k) = client r" "subscriber (remove r k) = subscriber r"
  "published (remove r k) = published r" "channels (remove r k) = channels r"
  "subscriptions (remove r k) = subscriptions r"
  by (simp_all add: remove_def)

section \<open>Quota windows\<close>

lemma ceil_div_ge: "a \<le> ceil_div a 1000 * 1000"
  unfolding ceil_div_def by (simp add: algebra_simps)

lemma ceil_div_pos: "0 < a \<Longrightarrow> 0 < ceil_div a 1000"
  using ceil_div_ge [of a] by (cases "0 < ceil_div a 1000") auto

lemma window_bounds:
  fixes t w :: int
  assumes "0 < w"
  shows "(t div w) * w \<le> t" and "t < (t div w) * w + w"
proof -
  have "t = (t div w) * w + t mod w" by simp
  moreover have "0 \<le> t mod w" "t mod w < w" using assms by simp_all
  ultimately show "(t div w) * w \<le> t" and "t < (t div w) * w + w" by linarith+
qed

lemma checkRateLimit_fields:
  assumes "getCurrentCount r now k ((now div windowMs rule) * windowMs rule) = Inr (Some n)"
  shows "checkRateLimit r now k rule =
     \<lparr>allowed = n < maxRequests rule, totalRequests = maxRequests rule,
      remainingRequests = (if n < maxRequests rule then maxRequests rule - n - 1 else 0),
      resetTime = ceil_div ((now div windowMs rule) * windowMs rule + windowMs rule) 1000,
      retryAfter = (if n < maxRequests rule then None
                    else Some (ceil_div ((now div windowMs rule) * windowMs rule + windowMs rule - now) 1000))\<rparr>"
  using assms by (simp add: checkRateLimit_def Let_def)

lemma getCurrentCount_lookup:
  "client r = Connected \<Longrightarrow>
   getCurrentCount r t k ws =
     Inr (case lookup r t (windowKey k ws) of
            None \<Rightarrow> Some 0 | Some (RCount n) \<Rightarrow> Some n | Some (RSet xs) \<Rightarrow> Some 0
          | Some _ \<Rightarrow> None)"
  by (auto simp: getCurrentCount_def redis_get_def cmd_get_def split: option.splits rvalue.splits)

lemma request_step:
  fixes c :: int
  assumes w: "0 < windowMs rule" and conn: "client r = Connected"
    and tq: "t div windowMs rule = q"
    and K: "K = windowKey k (q * windowMs rule)"
    and inv: "\<forall>t'. t' div windowMs rule = q \<longrightarrow> lookup r t' K = (if c = 0 then None else Some (RCount c))"
    and c0: "0 \<le> c"
    and c': "c' = (if c < maxRequests rule then c + 1 else c)"
    and res: "request r t k rule = (res, r')"
  shows "allowed res = (c < maxRequests rule)"
    and "client r' = Connected"
    and "\<forall>t'. t' div windowMs rule = q \<longrightarrow> lookup r' t' K = (if c' = 0 then None else Some (RCount c'))"
    and "\<forall>k'. k' \<noteq> K \<longrightarrow> map_of (kv r') k' = map_of (kv r) k'"
    and "\<not> allowed res \<longrightarrow> (\<exists>s. retryAfter res = Some s \<and> 0 < s)"
proof -
  let ?w = "windowMs rule"
  have lk: "lookup r t K = (if c = 0 then None else Some (RCount c))" using inv tq by simp
  have cnt: "getCurrentCount r t k ((t div ?w) * ?w) = Inr (Some c)"
    using lk conn by (simp add: getCurrentCount_lookup tq K [symmetric])
  have chk: "checkRateLimit r t k rule =
     \<lparr>allowed = c < maxRequests rule, totalRequests = maxRequests rule,
      remainingRequests = (if c < maxRequests rule then maxRequests rule - c - 1 else 0),
      resetTime = ceil_div ((t div ?w) * ?w + ?w) 1000,
      retryAfter = (if c < maxRequests rule then None
                    else Some (ceil_div ((t div ?w) * ?w + ?w - t) 1000))\<rparr>"
    by (rule checkRateLimit_fields [OF cnt])
  have res_eq: "res = checkRateLimit r t k rule" using res by (simp add: request_def Let_def)
  show "allowed res = (c < maxRequests rule)" by (simp add: res_eq chk)
  have "0 < (t div ?w) * ?w + ?w - t" using window_bounds(2) [OF w, of t] by simp
  then have "0 < ceil_div ((t div ?w) * ?w + ?w - t) 1000" by (rule ceil_div_pos)
  then show "\<not> allowed res \<longrightarrow> (\<exists>s. retryAfter res = Some s \<and> 0 < s)" by (simp add: res_eq chk)
  have late: "t' < t + (ceil_div ?w 1000 + 1) * 1000" if "t' div ?w = q" for t'
  proof -
    have "t' < q * ?w + ?w" using window_bounds(2) [OF w, of t'] that by simp
    moreover have "q * ?w \<le> t" using window_bounds(1) [OF w, of t] tq by simp
    moreover have "?w \<le> ceil_div ?w 1000 * 1000" by (rule ceil_div_ge)
    ultimately show ?thesis by (simp add: algebra_simps)
  qed
  show "client r' = Connected"
    using res conn lk
    by (auto simp: request_def Let_def recordRequest_def incrementCount_def redis_incr_def
        cmd_incr_def redis_expire_def cmd_expire_def lookup_store tq K [symmetric]
        split: if_splits sum.splits prod.splits)
  show "\<forall>k'. k' \<noteq> K \<longrightarrow> map_of (kv r') k' = map_of (kv r) k'"
    using res conn lk
    by (auto simp: request_def Let_def recordRequest_def incrementCount_def redis_incr_def
        cmd_incr_def redis_expire_def cmd_expire_def lookup_store map_of_store tq K [symmetric]
        split: if_splits sum.splits prod.splits)
  show "\<forall>t'. t' div windowMs rule = q \<longrightarrow> lookup r' t' K = (if c' = 0 then None else Some (RCount c'))"
  proof (intro allI impI)
    fix t' assume t': "t' div ?w = q"
    have old: "lookup r t' K = (if c = 0 then None else Some (RCount c))" using inv t' by simp
    show "lookup r' t' K = (if c' = 0 then None else Some (RCount c'))"
    proof (cases "c < maxRequests rule")
      case False
      then have "r' = r" using res by (simp add: request_def Let_def chk)
      then show ?thesis using old c' False by simp
    next
      case True
      show ?thesis
      proof (cases "c = 0")
        case c: True
        have "r' = store (store r K (RCount 1) None) K (RCount 1) (Some (t + (ceil_div ?w 1000 + 1) * 1000))"
          using res conn lk True c
          by (simp add: request_def Let_def chk recordRequest_def incrementCount_def redis_incr_def
              cmd_incr_def redis_expire_def cmd_expire_def lookup_store tq K [symmetric])
        then show ?thesis using late [OF t'] c c' True by (simp add: lookup_store)
      next
        case c: False
        have "r' = store r K (RCount (c + 1)) (expiry r K)"
          using res conn lk True c c0
          by (simp add: request_def Let_def chk recordRequest_def incrementCount_def redis_incr_def
              cmd_incr_def redis_expire_def cmd_expire_def lookup_store tq K [symmetric])
        moreover have "lookup r t' K = Some (RCount c)" using old c by simp
        ultimately show ?thesis using c c' True c0
          by (auto simp: lookup_def expiry_def map_of_store split: option.splits if_splits)
      qed
    qed
  qed
qed

lemma serve_window:
  fixes c :: int
  assumes w: "0 < windowMs rule"
    and K: "K = windowKey k (q * windowMs rule)"
  shows "client r = Connected \<Longrightarrow> 0 \<le> c \<Longrightarrow>
     \<forall>t'. t' div windowMs rule = q \<longrightarrow> lookup r t' K = (if c = 0 then None else Some (RCount c)) \<Longrightarrow>
     \<forall>t \<in> set ts. t div windowMs rule = q \<Longrightarrow>
     serve r k rule ts = (rs, r') \<Longrightarrow>
       map allowed rs = map (\<lambda>i. c + int i < maxRequests rule) [0..<length ts]
     \<and> (\<forall>res \<in> set rs. \<not> allowed res \<longrightarrow> (\<exists>s. retryAfter res = Some s \<and> 0 < s))
     \<and> client r' = Connected
     \<and> (\<forall>k'. k' \<noteq> K \<longrightarrow> map_of (kv r') k' = map_of (kv r) k')"
proof (induction ts arbitrary: r c rs r')
  case Nil
  then show ?case by simp
next
  case (Cons t ts)
  obtain res r1 where req: "request r t k rule = (res, r1)" by (cases "request r t k rule")
  obtain rest r2 where srv: "serve r1 k rule ts = (rest, r2)" by (cases "serve r1 k rule ts")
  have rs: "rs = res # rest" and r': "r' = r2" using Cons.prems(5) req srv by simp_all
  define c' where "c' = (if c < maxRequests rule then c + 1 else c)"
  have tq: "t div windowMs rule = q" using Cons.prems(4) by simp
  note step = request_step [OF w Cons.prems(1) tq K Cons.prems(3) Cons.prems(2) c'_def req]
  have c'0: "0 \<le> c'" using Cons.prems(2) by (simp add: c'_def)
  have rest_q: "\<forall>t \<in> set ts. t div windowMs rule = q" using Cons.prems(4) by simp
  note ih = Cons.IH [OF step(2) c'0 step(3) rest_q srv]
  have shift: "map (\<lambda>i. c + int i < maxRequests rule) [0..<length (t # ts)]
      = (c < maxRequests rule) # map (\<lambda>i. c' + int i < maxRequests rule) [0..<length ts]"
  proof -
    have "[0..<length (t # ts)] = 0 # map Suc [0..<length ts]"
      by (simp add: upt_conv_Cons map_Suc_upt del: upt_Suc)
    then show ?thesis by (auto simp: c'_def comp_def)
  qed
  show ?case
    unfolding shift rs r'
    using step(1) step(4) step(5) ih by auto
qed

lemma windowKey_inj: "0 \<le> a \<Longrightarrow> 0 \<le> b \<Longrightarrow> windowKey k a = windowKey k b \<Longrightarrow> a = b"
  by (auto simp: windowKey_def dest: show_int_inj)

text \<open>
  Claim C1. For a rule with a positive window length \<open>w\<close> and maximum \<open>m\<close>, and the
  counter value \<open>n\<close> read for the window containing \<open>now\<close>, \<open>checkRateLimit\<close> takes
  \<open>windowStart = floor(now / w) * w\<close>, admits exactly when \<open>n < m\<close>, reports
  \<open>m - n - 1\<close> remaining requests when it admits and 0 when it rejects, the reset time
  \<open>ceil((windowStart + w) / 1000)\<close>, and on rejection the retry delay
  \<open>ceil((windowStart + w - now) / 1000)\<close>, which is positive. Consequently, on a connected
  store with no counter yet for the window, of the requests made (and recorded when
  admitted) at any times of one window the first \<open>m\<close> are admitted and every later one is
  rejected with a positive retry delay, and a request at the start of the next window is
  admitted again (whenever \<open>m\<close> is positive).
\<close>

theorem quota_admission:
  assumes w: "0 < windowMs rule"
  shows
    "(getCurrentCount r now k ((now div windowMs rule) * windowMs rule) = Inr (Some n) \<longrightarrow>
        checkRateLimit r now k rule =
          \<lparr>allowed = n < maxRequests rule, totalRequests = maxRequests rule,
           remainingRequests = (if n < maxRequests rule then maxRequests rule - n - 1 else 0),
           resetTime = ceil_div ((now div windowMs rule) * windowMs rule + windowMs rule) 1000,
           retryAfter =
             (if n < maxRequests rule then None
              else Some (ceil_div ((now div windowMs rule) * windowMs rule + windowMs rule - now) 1000))\<rparr>
        \<and> 0 < ceil_div ((now div windowMs rule) * windowMs rule + windowMs rule - now) 1000)
     \<and> (client r = Connected \<and> 0 \<le> q
          \<and> map_of (kv r) (windowKey k (q * windowMs rule)) = None
          \<and> map_of (kv r) (windowKey k ((q + 1) * windowMs rule)) = None
          \<and> (\<forall>t \<in> set ts. t div windowMs rule = q) \<longrightarrow>
        map allowed (fst (serve r k rule ts)) = map (\<lambda>i. int i < maxRequests rule) [0..<length ts]
        \<and> (\<forall>res \<in> set (fst (serve r k rule ts)).
              \<not> allowed res \<longrightarrow> (\<exists>s. retryAfter res = Some s \<and> 0 < s))
        \<and> allowed (checkRateLimit (snd (serve r k rule ts)) ((q + 1) * windowMs rule) k rule)
              = (0 < maxRequests rule))"
proof (intro conjI impI)
  let ?w = "windowMs rule"
  assume cnt: "getCurrentCount r now k ((now div ?w) * ?w) = Inr (Some n)"
  show "checkRateLimit r now k rule =
          \<lparr>allowed = n < maxRequests rule, totalRequests = maxRequests rule,
           remainingRequests = (if n < maxRequests rule then maxRequests rule - n - 1 else 0),
           resetTime = ceil_div ((now div ?w) * ?w + ?w) 1000,
           retryAfter =
             (if n < maxRequests rule then None
              else Some (ceil_div ((now div ?w) * ?w + ?w - now) 1000))\<rparr>"
    by (rule checkRateLimit_fields [OF cnt])
next
  let ?w = "windowMs rule"
  have "0 < (now div ?w) * ?w + ?w - now" using window_bounds(2) [OF w, of now] by simp
  then show "0 < ceil_div ((now div ?w) * ?w + ?w - now) 1000" by (rule ceil_div_pos)
next
  let ?w = "windowMs rule"
  let ?K = "windowKey k (q * ?w)"
  let ?N = "windowKey k ((q + 1) * ?w)"
  assume h: "client r = Connected \<and> 0 \<le> q \<and> map_of (kv r) ?K = None \<and> map_of (kv r) ?N = None
      \<and> (\<forall>t \<in> set ts. t div ?w = q)"
  obtain rs r' where srv: "serve r k rule ts = (rs, r')" by (cases "serve r k rule ts")
  have inv: "\<forall>t'. t' div ?w = q \<longrightarrow> lookup r t' ?K = (if (0::int) = 0 then None else Some (RCount 0))"
    using h by (simp add: lookup_def)
  have all: "\<forall>t \<in> set ts. t div ?w = q" using h by simp
  have conn: "client r = Connected" using h by simp
  note sw = serve_window [OF w refl conn order_refl inv all srv]
  have NK: "?N \<noteq> ?K"
  proof
    assume "?N = ?K"
    moreover have "0 \<le> q * ?w" "0 \<le> (q + 1) * ?w" using h w by simp_all
    ultimately have "(q + 1) * ?w = q * ?w" by (metis windowKey_inj)
    then show False using w by (simp add: algebra_simps)
  qed
  have "map_of (kv r') ?N = None" using sw NK h by simp
  then have nxt: "lookup r' ((q + 1) * ?w) ?N = None" by (simp add: lookup_def)
  have "((q + 1) * ?w) div ?w = q + 1" using w by simp
  then have "getCurrentCount r' ((q + 1) * ?w) k ((((q + 1) * ?w) div ?w) * ?w) = Inr (Some 0)"
    using sw nxt by (simp add: getCurrentCount_lookup)
  from checkRateLimit_fields [OF this]
  have "allowed (checkRateLimit r' ((q + 1) * ?w) k rule) = (0 < maxRequests rule)" by simp
  then show "allowed (checkRateLimit (snd (serve r k rule ts)) ((q + 1) * ?w) k rule) = (0 < maxRequests rule)"
    by (simp add: srv)
  show "map allowed (fst (serve r k rule ts)) = map (\<lambda>i. int i < maxRequests rule) [0..<length ts]"
    using sw by (simp add: srv)
  show "\<forall>res \<in> set (fst (serve r k rule ts)).
              \<not> allowed res \<longrightarrow> (\<exists>s. retryAfter res = Some s \<and> 0 < s)"
    using sw by (simp add: srv)
qed

theorem quota_admission_witness:
  "(0::int) < windowMs \<lparr>windowMs = 60000, maxRequests = 3\<rparr>
   \<and> checkRateLimit \<lparr>client = Connected, subscriber = Connected, kv = [], subscriptions = [],
         channels = [], published = []\<rparr> 125000 ''ip'' \<lparr>windowMs = 60000, maxRequests = 3\<rparr>
       = \<lparr>allowed = True, totalRequests = 3, remainingRequests = 2, resetTime = 180, retryAfter = None\<rparr>
   \<and> map allowed (fst (serve \<lparr>client = Connected, subscriber = Connected, kv = [], subscriptions = [],
         channels = [], published = []\<rparr> ''ip'' \<lparr>windowMs = 60000, maxRequests = 3\<rparr>
         [120000, 125000, 130000, 179999])) = [True, True, True, False]
   \<and> allowed (checkRateLimit (snd (serve \<lparr>client = Connected, subscriber = Connected, kv = [],
         subscriptions = [], channels = [], published = []\<rparr> ''ip''
         \<lparr>windowMs = 60000, maxRequests = 3\<rparr> [120000, 125000, 130000, 179999])) 180000 ''ip''
         \<lparr>windowMs = 60000, maxRequests = 3\<rparr>)"
proof -
  let ?rule = "\<lparr>windowMs = 60000, maxRequests = 3\<rparr>"
  let ?r = "\<lparr>client = Connected, subscriber = Connected, kv = [], subscriptions = [],
         channels = [], published = []\<rparr>"
  have w: "0 < windowMs ?rule" by simp
  have cnt: "getCurrentCount ?r 125000 ''ip'' ((125000 div windowMs ?rule) * windowMs ?rule) = Inr (Some 0)"
    by (simp add: getCurrentCount_def redis_get_def cmd_get_def lookup_def)
  have h: "client ?r = Connected \<and> (0::int) \<le> 2
          \<and> map_of (kv ?r) (windowKey ''ip'' (2 * windowMs ?rule)) = None
          \<and> map_of (kv ?r) (windowKey ''ip'' ((2 + 1) * windowMs ?rule)) = None
          \<and> (\<forall>t \<in> set [120000, 125000, 130000, 179999]. t div windowMs ?rule = 2)"
    by simp
  from quota_admission [OF w, of ?r 125000 "''ip''" 0 2 "[120000, 125000, 130000, 179999]"] cnt h
  show ?thesis by (simp add: ceil_div_def del: serve.simps)
qed

section \<open>The adapter's failure policy\<close>

lemmas cmd_defs = cmd_get_def cmd_set_def cmd_setex_def cmd_incr_def cmd_expire_def cmd_del_def
  cmd_keys_def cmd_sadd_def cmd_srem_def cmd_smembers_def cmd_publish_def cmd_subscribe_def
  cmd_unsubscribe_def

lemmas adapter_defs = redis_get_def redis_set_def redis_incr_def redis_expire_def redis_del_def
  redis_keys_def setWithExpiry_def sadd_def srem_def smembers_def publish_def subscribe_def

lemma run_op_returns:
  "\<forall>ch. op \<noteq> OpUnsubscribe ch \<Longrightarrow> \<exists>rep r'. run_op r now op = Inr (rep, r')"
  by (cases op) (auto simp: adapter_defs Let_def split: sum.splits prod.splits)

lemma run_op_neutral:
  "\<forall>ch. op \<noteq> OpUnsubscribe ch \<Longrightarrow> unavailable r op \<Longrightarrow>
   \<exists>r'. run_op r now op = Inr (neutral op, r') \<and> same_server r r'"
  by (cases op)
    (auto simp: adapter_defs cmd_defs unavailable_def same_server_def Let_def
      split: sum.splits prod.splits)

lemma unsubscribe_rethrows:
  "unavailable r (OpUnsubscribe ch) \<Longrightarrow>
   run_op r now (OpUnsubscribe ch) = Inl (down (subscriber r))"
  by (auto simp: unsubscribe_def cmd_defs unavailable_def)

text \<open>
  Claim C9, as stated, fails: \<open>unsubscribe\<close> on a store whose subscriber connection
  rejects commands propagates the exception to its caller.
\<close>

theorem unsubscribe_propagates_counterexample:
  "run_op \<lparr>client = Failing, subscriber = Failing, kv = [], subscriptions = [''chat_tokens''],
      channels = [], published = []\<rparr> 0 (OpUnsubscribe ''chat_tokens'') = Inl ConnError"
  by (simp add: unsubscribe_def cmd_unsubscribe_def down_def)

text \<open>
  Claim C9, amended. Every operation of the adapter other than \<open>unsubscribe\<close> (get, set,
  increment, expire, delete, keys, setWithExpiry, the set operations, publish, subscribe)
  returns normally whatever the store does, and when the connection it uses is
  unavailable it returns its neutral default (null, 0, false, the empty list, nothing)
  and leaves the server's keys, channels and published messages as they were;
  \<open>unsubscribe\<close> on an unavailable subscriber connection rethrows the failure.
\<close>

theorem adapter_fails_open:
  "((\<forall>ch. op \<noteq> OpUnsubscribe ch) \<longrightarrow>
      (\<exists>rep r'. run_op r now op = Inr (rep, r'))
      \<and> (unavailable r op \<longrightarrow> (\<exists>r'. run_op r now op = Inr (neutral op, r') \<and> same_server r r')))
   \<and> (unavailable r (OpUnsubscribe c) \<longrightarrow>
        run_op r now (OpUnsubscribe c) = Inl (down (subscriber r)))"
  using run_op_returns [of op r now] run_op_neutral [of op r now] unsubscribe_rethrows [of r c now]
  by blast

theorem adapter_fails_open_witness:
  "(\<exists>r'. run_op \<lparr>client = Failing, subscriber = Failing, kv = [(''a'', RCount 1, None)],
          subscriptions = [], channels = [], published = []\<rparr> 5 (OpIncr ''a'')
        = Inr (Number 0, r')
      \<and> same_server \<lparr>client = Failing, subscriber = Failing, kv = [(''a'', RCount 1, None)],
          subscriptions = [], channels = [], published = []\<rparr> r')
   \<and> run_op \<lparr>client = Failing, subscriber = Failing, kv = [(''a'', RCount 1, None)],
          subscriptions = [], channels = [], published = []\<rparr> 5 (OpUnsubscribe ''logs'')
        = Inl ConnError"
proof -
  let ?r = "\<lparr>client = Failing, subscriber = Failing, kv = [(''a'', RCount 1, None)],
          subscriptions = [], channels = [], published = []\<rparr>"
  have a: "\<forall>ch. OpIncr ''a'' \<noteq> OpUnsubscribe ch" by simp
  have u: "unavailable ?r (OpIncr ''a'')" "unavailable ?r (OpUnsubscribe ''logs'')"
    by (simp_all add: unavailable_def)
  from adapter_fails_open [of "OpIncr ''a''" ?r 5 "''logs''"] a u
  show ?thesis by (simp add: down_def del: run_op.simps)
qed

section \<open>Sessions\<close>

lemma redis_get_connected:
  "client r = Connected \<Longrightarrow>
   redis_get r now k = Inr (case lookup r now k of Some (RSet xs) \<Rightarrow> None | v \<Rightarrow> v)"
  by (auto simp: redis_get_def cmd_get_def split: option.splits rvalue.splits)

lemma redis_get_session:
  "redis_get r now k = Inr (Some (RSession sd)) \<longleftrightarrow>
   client r = Connected \<and> lookup r now k = Some (RSession sd)"
  by (auto simp: redis_get_def cmd_get_def down_def split: option.splits rvalue.splits sum.splits)


lemma getSession_absent:
  "lookup r now (getSessionKey sid) = None \<Longrightarrow> getSession (Suc n) cfg r now sid = Some (None, r)"
  by (auto simp: redis_get_def cmd_get_def split: sum.splits option.splits rvalue.splits)

lemma getSession_diverges:
  "client r = Connected \<Longrightarrow> lookup r now (getSessionKey sid) = Some (RSession sd) \<Longrightarrow>
   expired cfg now sd \<Longrightarrow>
   getSession n cfg r now sid = None \<and> deleteSession n cfg r now sid = None"
  by (induction n) (simp_all add: redis_get_connected)

lemma getSession_found:
  "getSession n cfg r now sid = Some (Some sd, r') \<longleftrightarrow>
   0 < n \<and> r' = r \<and> client r = Connected \<and> lookup r now (getSessionKey sid) = Some (RSession sd)
   \<and> \<not> expired cfg now sd"
  by (cases n)
    (auto simp: redis_get_def cmd_get_def down_def split: option.splits rvalue.splits sum.splits if_splits)

declare getSession.simps [simp del] deleteSession.simps [simp del]



lemma smembers_owned:
  "client r = Connected \<Longrightarrow> smembers r now (getIPKey ip) = Inr (owned r now ip)"
  by (auto simp: smembers_def cmd_smembers_def owned_def split: option.splits rvalue.splits)

lemma owns_getSession:
  "client r = Connected \<Longrightarrow> owns cfg r now ip sid \<Longrightarrow>
   \<exists>sd. getSession (Suc n) cfg r now sid = Some (Some sd, r)"
  by (auto simp: owns_def getSession_found split: option.splits rvalue.splits)

lemma countValid_owned:
  "client r = Connected \<Longrightarrow> list_all (owns cfg r now ip) ids \<Longrightarrow>
   countValid (Suc n) cfg r now k ids c = Some (Inr (c + int (length ids)), r)"
proof (induction ids arbitrary: c)
  case Nil
  then show ?case by simp
next
  case (Cons x xs)
  then obtain sd where "getSession (Suc n) cfg r now x = Some (Some sd, r)"
    using owns_getSession [of r cfg now ip x n] by auto
  then show ?case using Cons by simp
qed

lemma getSessionCountByIP_owned:
  "client r = Connected \<Longrightarrow> list_all (owns cfg r now ip) (owned r now ip) \<Longrightarrow>
   getSessionCountByIP (Suc n) cfg r now ip = Some (int (length (owned r now ip)), r)"
  by (simp add: getSessionCountByIP_def smembers_owned countValid_owned del: countValid.simps)

lemma createSession_at_cap:
  "client r = Connected \<Longrightarrow> list_all (owns cfg r now ip) (owned r now ip) \<Longrightarrow>
   maxSessionsPerIP cfg \<le> int (length (owned r now ip)) \<Longrightarrow>
   createSession (Suc n) cfg r now sid ip ua = Some (Inl TooManySessions, r)"
  by (simp add: createSession_def getSessionCountByIP_owned)

lemma getSessionKey_inj [simp]: "getSessionKey a = getSessionKey b \<longleftrightarrow> a = b"
  by (simp add: getSessionKey_def)

lemma lookup_store_kept:
  "lookup r now k = Some v \<Longrightarrow> lookup (store r k v' (expiry r k)) now k = Some v'"
  by (auto simp: lookup_def expiry_def map_of_store split: option.splits if_splits)

lemma deleteSession_owned:
  assumes conn: "client r = Connected"
    and v: "v \<in> set (owned r now ip)"
    and ov: "owns cfg r now ip v"
  shows "\<exists>r'. deleteSession (Suc (Suc n)) cfg r now v = Some (True, r')
      \<and> client r' = Connected
      \<and> (\<forall>t. owned r' t ip = removeAll v (owned r t ip))
      \<and> (\<forall>t x. x \<noteq> v \<longrightarrow> owns cfg r' t ip x = owns cfg r t ip x)
      \<and> (\<forall>t. lookup r' t (getSessionKey v) = None)
      \<and> (\<forall>t. lookup r' t (getIPKey ip) = None \<or> (\<exists>ys. lookup r' t (getIPKey ip) = Some (RSet ys)))"
proof -
  let ?K = "getIPKey ip" and ?V = "getSessionKey v"
  define xs where "xs = owned r now ip"
  obtain sd where sd: "lookup r now ?V = Some (RSession sd)" "\<not> expired cfg now sd" "ipAddress sd = ip"
    using ov by (auto simp: owns_def split: option.splits rvalue.splits)
  have K: "lookup r now ?K = Some (RSet xs)"
    using v unfolding xs_def owned_def by (cases "lookup r now ?K") (auto split: rvalue.splits)
  then obtain e where Km: "map_of (kv r) ?K = Some (RSet xs, e)"
    by (auto simp: lookup_def split: option.splits if_splits)
  have KV: "?K \<noteq> ?V" using K sd by auto
  have g: "getSession (Suc n) cfg r now v = Some (Some sd, r)"
    using conn sd by (simp add: getSession_found)
  let ?rest = "filter (\<lambda>x. x \<notin> set [v]) xs"
  define r1 where "r1 = (if ?rest = [] then remove r ?K else store r ?K (RSet ?rest) (expiry r ?K))"
  have s: "srem r now ?K [v] = Inr (int (length xs) - int (length ?rest), r1)"
    using conn K by (simp add: srem_def cmd_srem_def r1_def Let_def)
  have c1: "client r1 = Connected" using conn by (simp add: r1_def)
  have m1: "map_of (kv r1) k = map_of (kv r) k" if "k \<noteq> ?K" for k
    using that by (simp add: r1_def map_of_store map_of_remove)
  have K1: "map_of (kv r1) ?K = (if ?rest = [] then None else Some (RSet ?rest, e))"
    using Km by (simp add: r1_def map_of_remove map_of_store expiry_def)
  let ?r2 = "remove r1 ?V"
  have "lookup r1 now ?V = lookup r now ?V" using m1 [of ?V] KV by (simp add: lookup_def)
  then have d: "redis_del r1 now [?V] = Inr (1, ?r2)"
    using c1 sd by (simp add: redis_del_def cmd_del_def)
  have del: "deleteSession (Suc (Suc n)) cfg r now v = Some (True, ?r2)"
    by (simp add: deleteSession.simps g sd s d)
  have "filter (\<lambda>x. x \<notin> set [v]) ys = removeAll v ys" for ys :: "string list"
    by (induction ys) auto
  then have rest: "?rest = removeAll v xs" by simp
  have K2: "map_of (kv ?r2) ?K = (if ?rest = [] then None else Some (RSet ?rest, e))"
    using KV K1 by (simp add: map_of_remove)
  have V2: "map_of (kv ?r2) ?V = None" by (simp add: map_of_remove)
  have m2: "map_of (kv ?r2) k = map_of (kv r) k" if "k \<noteq> ?K" "k \<noteq> ?V" for k
    using that m1 by (simp add: map_of_remove)
  have o2: "owned ?r2 t ip = removeAll v (owned r t ip)" for t
    unfolding owned_def lookup_def K2 Km using rest by (cases e) auto
  have keep: "owns cfg ?r2 t ip x = owns cfg r t ip x" if x1: "x \<noteq> v" for t x
  proof (cases "getSessionKey x = ?K")
    case True
    then show ?thesis unfolding owns_def lookup_def by (simp only: K2 Km) (cases e; auto)
  next
    case False
    then have "map_of (kv ?r2) (getSessionKey x) = map_of (kv r) (getSessionKey x)"
      using x1 by (intro m2) simp_all
    then show ?thesis by (simp add: owns_def lookup_def)
  qed
  have idx: "lookup ?r2 t ?K = None \<or> (\<exists>ys. lookup ?r2 t ?K = Some (RSet ys))" for t
    unfolding lookup_def K2 by (cases e) auto
  have gone: "lookup ?r2 t ?V = None" for t by (simp add: lookup_def V2)
  show ?thesis
  proof (intro exI [of _ ?r2] conjI allI impI)
    show "deleteSession (Suc (Suc n)) cfg r now v = Some (True, ?r2)" by (rule del)
    show "client ?r2 = Connected" using c1 by simp
    show "owned ?r2 t ip = removeAll v (owned r t ip)" for t by (rule o2)
    show "owns cfg ?r2 t ip x = owns cfg r t ip x" if "x \<noteq> v" for t x using that by (rule keep)
    show "lookup ?r2 t ?V = None" for t by (rule gone)
    show "lookup ?r2 t ?K = None \<or> (\<exists>ys. lookup ?r2 t ?K = Some (RSet ys))" for t by (rule idx)
  qed
qed

lemma createSession_succeeds:
  assumes conn: "client r = Connected"
    and all: "list_all (owns cfg r now ip) (owned r now ip)"
    and room: "int (length (owned r now ip)) < maxSessionsPerIP cfg"
    and ttl: "0 < sessionTtl cfg"
    and SK: "getSessionKey sid \<noteq> getIPKey ip"
    and idx: "lookup r now (getIPKey ip) = None \<or> (\<exists>ys. lookup r now (getIPKey ip) = Some (RSet ys))"
    and sd: "sd = \<lparr>sessionId = sid, createdAt = now, lastActivity = now,
                   ipAddress = ip, userAgent = ua, messageCount = 0, isActive = True\<rparr>"
  shows "\<exists>r'. createSession (Suc n) cfg r now sid ip ua = Some (Inr sd, r')
      \<and> lookup r' now (getSessionKey sid) = Some (RSession sd)
      \<and> expiry r' (getSessionKey sid) = Some (now + sessionTtl cfg * 1000)
      \<and> sid \<in> set (owned r' now ip)"
proof -
  let ?K = "getIPKey ip" and ?S = "getSessionKey sid"
  let ?e = "Some (now + sessionTtl cfg * 1000)"
  have cnt: "getSessionCountByIP (Suc n) cfg r now ip = Some (int (length (owned r now ip)), r)"
    by (rule getSessionCountByIP_owned [OF conn all])
  let ?r2 = "store r ?S (RSession sd) ?e"
  have w: "setWithExpiry r now ?S (RSession sd) (sessionTtl cfg) = Inr ?r2"
    using conn ttl by (simp add: setWithExpiry_def cmd_setex_def)
  have l2: "lookup ?r2 now ?K = lookup r now ?K" using SK by (simp add: lookup_store)
  obtain a r3 where a: "sadd ?r2 now ?K [sid] = Inr (a, r3)"
    and c3: "client r3 = Connected"
    and K3: "\<exists>ys. lookup r3 now ?K = Some (RSet ys) \<and> sid \<in> set ys"
    and S3: "map_of (kv r3) ?S = Some (RSession sd, ?e)"
  proof (cases "lookup r now ?K")
    case None
    then show ?thesis
      using that [of "int (length (remdups [sid]))" "store ?r2 ?K (RSet (remdups [sid])) None"] conn l2 SK
      by (simp add: sadd_def cmd_sadd_def lookup_store map_of_store)
  next
    case (Some val)
    then obtain xs where RSet: "val = RSet xs" using idx by auto
    show ?thesis
    proof -
      show ?thesis
        using that [of "int (length (filter (\<lambda>m. m \<notin> set xs) (remdups [sid])))"
            "store ?r2 ?K (RSet (xs @ filter (\<lambda>m. m \<notin> set xs) (remdups [sid]))) (expiry ?r2 ?K)"]
          conn l2 SK Some RSet
        by (auto simp: sadd_def cmd_sadd_def Let_def lookup_store_kept map_of_store)
    qed
  qed
  obtain ys where ys: "lookup r3 now ?K = Some (RSet ys)" "sid \<in> set ys" using K3 by blast
  let ?r4 = "store r3 ?K (RSet ys) ?e"
  have x: "redis_expire r3 now ?K (sessionTtl cfg) = Inr (True, ?r4)"
    using c3 ys by (simp add: redis_expire_def cmd_expire_def)
  have "createSession (Suc n) cfg r now sid ip ua = Some (Inr sd, ?r4)"
    using room by (simp add: createSession_def cnt w a x sd [symmetric] Let_def)
  moreover have "lookup ?r4 now ?S = Some (RSession sd)"
    using SK S3 ttl by (simp add: lookup_def map_of_store)
  moreover have "expiry ?r4 ?S = ?e" using SK S3 by (simp add: expiry_def map_of_store)
  moreover have "sid \<in> set (owned ?r4 now ip)" using ys ttl by (simp add: owned_def lookup_store)
  ultimately show ?thesis by blast
qed

text \<open>
  The cap while the index is in step. When the reverse-lookup index of a client address
  lists the configured maximum \<open>m\<close> of sessions (or more), each a stored, unexpired
  session of that address, \<open>createSession\<close> for the address fails with the
  too-many-sessions error and leaves the store as it was. After one of these \<open>m\<close>
  sessions is deleted, a later \<open>createSession\<close> for the same address (at a time \<open>now'\<close>
  when the other indexed sessions are still unexpired, and for a session id whose key is
  not the key of the index) succeeds: the session record is stored under its key with the
  time-to-live \<open>ttl\<close> seconds, and the session id is a member of the address's index.
\<close>

lemma session_cap:
  assumes conn: "client r = Connected"
    and all: "list_all (owns cfg r now ip) (owned r now ip)"
  shows
    "(maxSessionsPerIP cfg \<le> int (length (owned r now ip)) \<longrightarrow>
        createSession (Suc n) cfg r now sid ip ua = Some (Inl TooManySessions, r))
     \<and> (int (length (owned r now ip)) = maxSessionsPerIP cfg \<and> distinct (owned r now ip)
          \<and> v \<in> set (owned r now ip)
          \<and> list_all (owns cfg r now' ip) (removeAll v (owned r now' ip))
          \<and> 0 < sessionTtl cfg \<and> getSessionKey sid \<noteq> getIPKey ip \<longrightarrow>
        (\<exists>r1 r2 sd. deleteSession (Suc (Suc n)) cfg r now v = Some (True, r1)
           \<and> createSession (Suc n) cfg r1 now' sid ip ua = Some (Inr sd, r2)
           \<and> sd = \<lparr>sessionId = sid, createdAt = now', lastActivity = now', ipAddress = ip,
                    userAgent = ua, messageCount = 0, isActive = True\<rparr>
           \<and> lookup r2 now' (getSessionKey sid) = Some (RSession sd)
           \<and> expiry r2 (getSessionKey sid) = Some (now' + sessionTtl cfg * 1000)
           \<and> sid \<in> set (owned r2 now' ip)))"
proof (intro conjI impI)
  assume "maxSessionsPerIP cfg \<le> int (length (owned r now ip))"
  then show "createSession (Suc n) cfg r now sid ip ua = Some (Inl TooManySessions, r)"
    by (rule createSession_at_cap [OF conn all])
next
  let ?sd = "\<lparr>sessionId = sid, createdAt = now', lastActivity = now', ipAddress = ip,
                    userAgent = ua, messageCount = 0, isActive = True\<rparr>"
  assume h: "int (length (owned r now ip)) = maxSessionsPerIP cfg \<and> distinct (owned r now ip)
          \<and> v \<in> set (owned r now ip)
          \<and> list_all (owns cfg r now' ip) (removeAll v (owned r now' ip))
          \<and> 0 < sessionTtl cfg \<and> getSessionKey sid \<noteq> getIPKey ip"
  have ov: "owns cfg r now ip v" using all h by (simp add: list_all_iff)
  from deleteSession_owned [OF conn _ ov, of n] h
  obtain r1 where r1: "deleteSession (Suc (Suc n)) cfg r now v = Some (True, r1)"
    "client r1 = Connected"
    "\<forall>t. owned r1 t ip = removeAll v (owned r t ip)"
    "\<forall>t x. x \<noteq> v \<longrightarrow> owns cfg r1 t ip x = owns cfg r t ip x"
    "\<forall>t. lookup r1 t (getIPKey ip) = None \<or> (\<exists>ys. lookup r1 t (getIPKey ip) = Some (RSet ys))"
    by blast
  have all1: "list_all (owns cfg r1 now' ip) (owned r1 now' ip)"
    using h r1(3) r1(4) by (auto simp: list_all_iff)
  have sub: "owned r now' ip = owned r now ip \<or> owned r now' ip = []"
    using h by (auto simp: owned_def lookup_def split: option.splits rvalue.splits if_splits)
  have "length (removeAll v (owned r now ip)) < length (owned r now ip)"
    using h by (simp add: length_removeAll_less)
  then have "length (removeAll v (owned r now' ip)) < length (owned r now ip)"
    using sub by (cases "owned r now' ip = []") auto
  then have room: "int (length (owned r1 now' ip)) < maxSessionsPerIP cfg"
    using h r1(3) by simp
  from createSession_succeeds [OF r1(2) all1 room _ _ _ refl, of sid n ua] h r1(5)
  obtain r2 where "createSession (Suc n) cfg r1 now' sid ip ua = Some (Inr ?sd, r2)"
    "lookup r2 now' (getSessionKey sid) = Some (RSession ?sd)"
    "expiry r2 (getSessionKey sid) = Some (now' + sessionTtl cfg * 1000)"
    "sid \<in> set (owned r2 now' ip)"
    by blast
  then show "\<exists>r1 r2 sd. deleteSession (Suc (Suc n)) cfg r now v = Some (True, r1)
           \<and> createSession (Suc n) cfg r1 now' sid ip ua = Some (Inr sd, r2)
           \<and> sd = ?sd
           \<and> lookup r2 now' (getSessionKey sid) = Some (RSession sd)
           \<and> expiry r2 (getSessionKey sid) = Some (now' + sessionTtl cfg * 1000)
           \<and> sid \<in> set (owned r2 now' ip)"
    using r1(1) by blast
qed

lemma session_cap_example:
  "createSession (Suc 0) demo_config demo_store 5000 ''s3'' ''10.0.0.7'' ''Mozilla/5.0''
     = Some (Inl TooManySessions, demo_store)
   \<and> (\<exists>r1 r2. deleteSession (Suc (Suc 0)) demo_config demo_store 5000 ''s1'' = Some (True, r1)
        \<and> createSession (Suc 0) demo_config r1 6000 ''s3'' ''10.0.0.7'' ''Mozilla/5.0''
            = Some (Inr \<lparr>sessionId = ''s3'', createdAt = 6000, lastActivity = 6000,
                 ipAddress = ''10.0.0.7'', userAgent = ''Mozilla/5.0'', messageCount = 0,
                 isActive = True\<rparr>, r2)
        \<and> expiry r2 (getSessionKey ''s3'') = Some 3606000
        \<and> ''s3'' \<in> set (owned r2 6000 ''10.0.0.7''))"
proof -
  have c: "client demo_store = Connected" by (simp add: demo_store_def)
  have o: "owned demo_store t ''10.0.0.7'' = [''s1'', ''s2'']" if "t < 3602000" for t
    using that by (simp add: owned_def lookup_def demo_store_def getIPKey_def)
  have s: "owns demo_config demo_store t ''10.0.0.7'' ''s1''"
      "owns demo_config demo_store t ''10.0.0.7'' ''s2''" if "t < 3601000" for t
    using that
    by (simp_all add: owns_def lookup_def demo_store_def getSessionKey_def expired_def
        demo_config_def demo_session_def)
  have a: "list_all (owns demo_config demo_store 5000 ''10.0.0.7'') (owned demo_store 5000 ''10.0.0.7'')"
    using s [of 5000] by (simp add: o)
  have h: "int (length (owned demo_store 5000 ''10.0.0.7'')) = maxSessionsPerIP demo_config
      \<and> distinct (owned demo_store 5000 ''10.0.0.7'')
      \<and> ''s1'' \<in> set (owned demo_store 5000 ''10.0.0.7'')
      \<and> list_all (owns demo_config demo_store 6000 ''10.0.0.7'') (removeAll ''s1'' (owned demo_store 6000 ''10.0.0.7''))
      \<and> 0 < sessionTtl demo_config \<and> getSessionKey ''s3'' \<noteq> getIPKey ''10.0.0.7''"
    using s [of 6000] by (simp add: o demo_config_def getSessionKey_def getIPKey_def)
  from session_cap [OF c a, of 0 "''s3''" "''Mozilla/5.0''" "''s1''" 6000] h
  show ?thesis by (auto simp: demo_config_def)
qed

lemmas session_eval = createSession_def getSessionCountByIP_def smembers_def cmd_smembers_def
  getSession.simps redis_get_def cmd_get_def lookup_def getSessionKey_def getIPKey_def
  setWithExpiry_def cmd_setex_def store_def sadd_def cmd_sadd_def redis_expire_def
  cmd_expire_def expiry_def expired_def srem_def cmd_srem_def remove_def Let_def
  incrementMessageCount_def updateSession_def applyUpdates_def validateSession_def
  owns_def owned_def truthy_def

text \<open>
  Claim C7 fails on a store that the service reaches by its own operations. The
  reverse-lookup index of an address gets its time-to-live when a session is created and
  at no other time, while every message re-arms the key of its session. With a maximum of
  two sessions, the address 10.0.0.7 creates \<open>s1\<close> and \<open>s2\<close> (a third is refused
  then), and both sessions receive a message at 3000000. At 3602000 the index has
  expired, the address still owns its two valid sessions, and \<open>createSession\<close> for a
  third one succeeds: the address owns three valid sessions, of which the new index lists
  one.
\<close>

theorem session_cap_exceeded:
  "\<exists>r1 r2 r4 r5 s3.
     (\<exists>s1. createSession (Suc 0) cap_config empty_store 1000 ''s1'' ''10.0.0.7'' ''Mozilla/5.0''
             = Some (Inr s1, r1))
   \<and> (\<exists>s2. createSession (Suc 0) cap_config r1 2000 ''s2'' ''10.0.0.7'' ''Mozilla/5.0''
             = Some (Inr s2, r2))
   \<and> createSession (Suc 0) cap_config r2 3000 ''s3'' ''10.0.0.7'' ''Mozilla/5.0''
       = Some (Inl TooManySessions, r2)
   \<and> (\<exists>r3. incrementMessageCount (Suc 0) cap_config r2 3000000 ''s1'' = Some (Inr 1, r3)
           \<and> incrementMessageCount (Suc 0) cap_config r3 3000000 ''s2'' = Some (Inr 1, r4))
   \<and> maxSessionsPerIP cap_config = 2
   \<and> owns cap_config r4 3602000 ''10.0.0.7'' ''s1''
   \<and> owns cap_config r4 3602000 ''10.0.0.7'' ''s2''
   \<and> validateSession (Suc 0) cap_config r4 3602000 ''s1'' (Some ''10.0.0.7'') = Some (True, r4)
   \<and> validateSession (Suc 0) cap_config r4 3602000 ''s2'' (Some ''10.0.0.7'') = Some (True, r4)
   \<and> owned r4 3602000 ''10.0.0.7'' = []
   \<and> createSession (Suc 0) cap_config r4 3602000 ''s3'' ''10.0.0.7'' ''Mozilla/5.0''
       = Some (Inr s3, r5)
   \<and> owns cap_config r5 3602000 ''10.0.0.7'' ''s1''
   \<and> owns cap_config r5 3602000 ''10.0.0.7'' ''s2''
   \<and> owns cap_config r5 3602000 ''10.0.0.7'' ''s3''
   \<and> owned r5 3602000 ''10.0.0.7'' = [''s3'']"
proof -
  let ?a = "\<lambda>sid t. demo_session sid t\<lparr>lastActivity := 3000000, messageCount := 1\<rparr>"
  let ?st = "\<lambda>kvs. \<lparr>client = Connected, subscriber = Connected, kv = kvs, subscriptions = [],
      channels = [], published = []\<rparr>"
  let ?r1 = "?st [(''session:s1'', RSession (demo_session ''s1'' 1000), Some 3601000),
      (''session:ip:10.0.0.7'', RSet [''s1''], Some 3601000)]"
  let ?r2 = "?st [(''session:s1'', RSession (demo_session ''s1'' 1000), Some 3601000),
      (''session:ip:10.0.0.7'', RSet [''s1'', ''s2''], Some 3602000),
      (''session:s2'', RSession (demo_session ''s2'' 2000), Some 3602000)]"
  let ?r3 = "?st [(''session:s1'', RSession (?a ''s1'' 1000), Some 6600000),
      (''session:ip:10.0.0.7'', RSet [''s1'', ''s2''], Some 3602000),
      (''session:s2'', RSession (demo_session ''s2'' 2000), Some 3602000)]"
  let ?r4 = "?st [(''session:s1'', RSession (?a ''s1'' 1000), Some 6600000),
      (''session:ip:10.0.0.7'', RSet [''s1'', ''s2''], Some 3602000),
      (''session:s2'', RSession (?a ''s2'' 2000), Some 6600000)]"
  let ?r5 = "?st [(''session:s1'', RSession (?a ''s1'' 1000), Some 6600000),
      (''session:ip:10.0.0.7'', RSet [''s3''], Some 7202000),
      (''session:s2'', RSession (?a ''s2'' 2000), Some 6600000),
      (''session:s3'', RSession (demo_session ''s3'' 3602000), Some 7202000)]"
  have 1: "createSession (Suc 0) cap_config empty_store 1000 ''s1'' ''10.0.0.7'' ''Mozilla/5.0''
      = Some (Inr (demo_session ''s1'' 1000), ?r1)"
    by (simp add: session_eval cap_config_def empty_store_def demo_session_def)
  have 2: "createSession (Suc 0) cap_config ?r1 2000 ''s2'' ''10.0.0.7'' ''Mozilla/5.0''
      = Some (Inr (demo_session ''s2'' 2000), ?r2)"
    by (simp add: session_eval cap_config_def demo_session_def)
  have 3: "createSession (Suc 0) cap_config ?r2 3000 ''s3'' ''10.0.0.7'' ''Mozilla/5.0''
      = Some (Inl TooManySessions, ?r2)"
    by (simp add: session_eval cap_config_def demo_session_def)
  have 4: "incrementMessageCount (Suc 0) cap_config ?r2 3000000 ''s1'' = Some (Inr 1, ?r3)"
    by (simp add: session_eval cap_config_def demo_session_def)
  have 5: "incrementMessageCount (Suc 0) cap_config ?r3 3000000 ''s2'' = Some (Inr 1, ?r4)"
    by (simp add: session_eval cap_config_def demo_session_def)
  have 6: "maxSessionsPerIP cap_config = 2" by (simp add: cap_config_def)
  have 7: "owns cap_config ?r4 3602000 ''10.0.0.7'' ''s1''"
    "owns cap_config ?r4 3602000 ''10.0.0.7'' ''s2''"
    "validateSession (Suc 0) cap_config ?r4 3602000 ''s1'' (Some ''10.0.0.7'') = Some (True, ?r4)"
    "validateSession (Suc 0) cap_config ?r4 3602000 ''s2'' (Some ''10.0.0.7'') = Some (True, ?r4)"
    "owned ?r4 3602000 ''10.0.0.7'' = []"
    by (simp_all add: session_eval cap_config_def demo_session_def)
  have 8: "createSession (Suc 0) cap_config ?r4 3602000 ''s3'' ''10.0.0.7'' ''Mozilla/5.0''
      = Some (Inr (demo_session ''s3'' 3602000), ?r5)"
    by (simp add: session_eval cap_config_def demo_session_def)
  have 9: "owns cap_config ?r5 3602000 ''10.0.0.7'' ''s1''"
    "owns cap_config ?r5 3602000 ''10.0.0.7'' ''s2''"
    "owns cap_config ?r5 3602000 ''10.0.0.7'' ''s3''"
    "owned ?r5 3602000 ''10.0.0.7'' = [''s3'']"
    by (simp_all add: session_eval cap_config_def demo_session_def)
  show ?thesis
    apply (rule exI [of _ ?r1], rule exI [of _ ?r2], rule exI [of _ ?r4], rule exI [of _ ?r5],
        rule exI [of _ "demo_session ''s3'' 3602000"])
    apply (intro conjI exI)
    by (rule 1 2 3 4 5 6 7 8 9)+
qed

text \<open>
  The session id is chosen by the client. The id \<open>ip:10.0.0.7\<close> from the address
  10.0.0.7 has the key of the address's index: the record replaces the index, the
  command that adds to the index is refused for the type of the value and the refusal is
  swallowed. The sessions \<open>s1\<close>, \<open>s2\<close> and \<open>s3\<close> of the address are then created one
  after the other, none refused, with a maximum of two.
\<close>

lemma session_id_replaces_index:
  "\<exists>r1 r2 r3 r4 s0 s1 s2 s3.
     createSession (Suc 0) cap_config empty_store 1000 ''ip:10.0.0.7'' ''10.0.0.7'' ''Mozilla/5.0''
       = Some (Inr s0, r1)
   \<and> lookup r1 1000 (getIPKey ''10.0.0.7'') = Some (RSession s0)
   \<and> createSession (Suc 0) cap_config r1 2000 ''s1'' ''10.0.0.7'' ''Mozilla/5.0'' = Some (Inr s1, r2)
   \<and> createSession (Suc 0) cap_config r2 3000 ''s2'' ''10.0.0.7'' ''Mozilla/5.0'' = Some (Inr s2, r3)
   \<and> createSession (Suc 0) cap_config r3 4000 ''s3'' ''10.0.0.7'' ''Mozilla/5.0'' = Some (Inr s3, r4)
   \<and> owns cap_config r4 4000 ''10.0.0.7'' ''s1'' \<and> owns cap_config r4 4000 ''10.0.0.7'' ''s2''
   \<and> owns cap_config r4 4000 ''10.0.0.7'' ''s3''
   \<and> maxSessionsPerIP cap_config = 2"
proof -
  let ?i = "\<lambda>e. (''session:ip:10.0.0.7'', RSession (demo_session ''ip:10.0.0.7'' 1000), Some e)"
  let ?st = "\<lambda>kvs. \<lparr>client = Connected, subscriber = Connected, kv = kvs, subscriptions = [],
      channels = [], published = []\<rparr>"
  let ?r1 = "?st [?i 3601000]"
  let ?r2 = "?st [?i 3602000, (''session:s1'', RSession (demo_session ''s1'' 2000), Some 3602000)]"
  let ?r3 = "?st [?i 3603000, (''session:s1'', RSession (demo_session ''s1'' 2000), Some 3602000),
      (''session:s2'', RSession (demo_session ''s2'' 3000), Some 3603000)]"
  let ?r4 = "?st [?i 3604000, (''session:s1'', RSession (demo_session ''s1'' 2000), Some 3602000),
      (''session:s2'', RSession (demo_session ''s2'' 3000), Some 3603000),
      (''session:s3'', RSession (demo_session ''s3'' 4000), Some 3604000)]"
  have 1: "createSession (Suc 0) cap_config empty_store 1000 ''ip:10.0.0.7'' ''10.0.0.7''
      ''Mozilla/5.0'' = Some (Inr (demo_session ''ip:10.0.0.7'' 1000), ?r1)"
    "lookup ?r1 1000 (getIPKey ''10.0.0.7'') = Some (RSession (demo_session ''ip:10.0.0.7'' 1000))"
    by (simp_all add: session_eval cap_config_def empty_store_def demo_session_def)
  have 2: "createSession (Suc 0) cap_config ?r1 2000 ''s1'' ''10.0.0.7'' ''Mozilla/5.0''
      = Some (Inr (demo_session ''s1'' 2000), ?r2)"
    by (simp add: session_eval cap_config_def demo_session_def)
  have 3: "createSession (Suc 0) cap_config ?r2 3000 ''s2'' ''10.0.0.7'' ''Mozilla/5.0''
      = Some (Inr (demo_session ''s2'' 3000), ?r3)"
    by (simp add: session_eval cap_config_def demo_session_def)
  have 4: "createSession (Suc 0) cap_config ?r3 4000 ''s3'' ''10.0.0.7'' ''Mozilla/5.0''
      = Some (Inr (demo_session ''s3'' 4000), ?r4)"
    by (simp add: session_eval cap_config_def demo_session_def)
  have 5: "owns cap_config ?r4 4000 ''10.0.0.7'' ''s1''" "owns cap_config ?r4 4000 ''10.0.0.7'' ''s2''"
    "owns cap_config ?r4 4000 ''10.0.0.7'' ''s3''" "maxSessionsPerIP cap_config = 2"
    by (simp_all add: session_eval cap_config_def demo_session_def)
  show ?thesis
    apply (rule exI [of _ ?r1], rule exI [of _ ?r2], rule exI [of _ ?r3], rule exI [of _ ?r4])
    apply (intro conjI exI)
    by (rule 1 2 3 4 5)+
qed

text \<open>
  In general: without the extend-on-activity flag an update of a live session leaves its
  key without expiry, and once the record has expired neither \<open>getSession\<close> nor
  \<open>deleteSession\<close> returns on it, whatever the bound on the depth of their calls.
\<close>

lemma updateSession_plain_set:
  assumes conn: "client r = Connected"
    and here: "lookup r now (getSessionKey sid) = Some (RSession sd)"
    and live: "\<not> expired cfg now sd"
    and flag: "\<not> extendOnActivity cfg"
  shows "\<exists>r'. updateSession (Suc n) cfg r now sid u = Some (Inr (Some (applyUpdates now sd u)), r')
     \<and> expiry r' (getSessionKey sid) = None
     \<and> (\<forall>t. lookup r' t (getSessionKey sid) = Some (RSession (applyUpdates now sd u)))
     \<and> (\<forall>t m. expired cfg t (applyUpdates now sd u) \<longrightarrow>
            getSession m cfg r' t sid = None \<and> deleteSession m cfg r' t sid = None)"
proof -
  let ?K = "getSessionKey sid" and ?u = "applyUpdates now sd u"
  let ?r = "store r ?K (RSession ?u) None"
  have g: "getSession (Suc n) cfg r now sid = Some (Some sd, r)"
    using conn here live by (simp add: getSession_found)
  have w: "redis_set r now ?K (RSession ?u) None = Inr ?r"
    using conn by (simp add: redis_set_def cmd_set_def)
  have u: "updateSession (Suc n) cfg r now sid u = Some (Inr (Some ?u), ?r)"
    using flag by (simp add: updateSession_def g w Let_def)
  have e: "expiry ?r ?K = None" by (simp add: expiry_store)
  have l: "lookup ?r t ?K = Some (RSession ?u)" for t by (simp add: lookup_store)
  have c: "client ?r = Connected" using conn by simp
  have d: "getSession m cfg ?r t sid = None \<and> deleteSession m cfg ?r t sid = None"
    if "expired cfg t ?u" for t m
    using getSession_diverges [OF c l that] .
  show ?thesis using u e l d by blast
qed

text \<open>
  Claim C10. With the extend-on-activity flag off, \<open>updateSession\<close> rewrites the record
  with a plain SET: the key loses its expiry (3601000 before, none after) and the record
  is present at every later time. The lazy expiry check and the sweep are meant to remove
  it once it has expired, but they cannot: \<open>getSession\<close> awaits \<open>deleteSession\<close>, which
  first awaits \<open>getSession\<close> on the same record, so that for every bound on the depth of
  these calls neither returns, and the sweep, which calls \<open>deleteSession\<close>, does not
  return either. The record is never removed.
\<close>

theorem stale_session_never_removed:
  "\<exists>sd r'. updateSession (Suc 0) demo_config demo_store 5000 ''s1''
         \<lparr>upd_lastActivity = None, upd_messageCount = Some 1, upd_isActive = None\<rparr>
       = Some (Inr (Some sd), r')
     \<and> expiry demo_store (getSessionKey ''s1'') = Some 3601000
     \<and> expiry r' (getSessionKey ''s1'') = None
     \<and> (\<forall>t. lookup r' t (getSessionKey ''s1'') = Some (RSession sd))
     \<and> expired demo_config 3605001 sd
     \<and> (\<forall>n. getSession n demo_config r' 3605001 ''s1'' = None)
     \<and> (\<forall>n. deleteSession n demo_config r' 3605001 ''s1'' = None)
     \<and> (\<forall>n. cleanupExpiredSessions n demo_config r' 3605001 = None)"
proof -
  let ?sd = "\<lparr>sessionId = ''s1'', createdAt = 1000, lastActivity = 5000,
      ipAddress = ''10.0.0.7'', userAgent = ''Mozilla/5.0'', messageCount = 1, isActive = True\<rparr>"
  let ?r = "\<lparr>client = Connected, subscriber = Connected,
      kv = [(''session:s1'', RSession ?sd, None),
            (''session:ip:10.0.0.7'', RSet [''s1'', ''s2''], Some 3602000),
            (''session:s2'', RSession (demo_session ''s2'' 2000), Some 3602000)],
      subscriptions = [], channels = [], published = []\<rparr>"
  have u: "updateSession (Suc 0) demo_config demo_store 5000 ''s1''
         \<lparr>upd_lastActivity = None, upd_messageCount = Some 1, upd_isActive = None\<rparr>
       = Some (Inr (Some ?sd), ?r)"
    by (simp add: updateSession_def getSession.simps redis_get_def cmd_get_def lookup_def
        demo_store_def demo_config_def demo_session_def getSessionKey_def expired_def
        applyUpdates_def redis_set_def cmd_set_def store_def Let_def)
  have e0: "expiry demo_store (getSessionKey ''s1'') = Some 3601000"
    by (simp add: expiry_def demo_store_def getSessionKey_def)
  have e1: "expiry ?r (getSessionKey ''s1'') = None"
    by (simp add: expiry_def getSessionKey_def)
  have l: "lookup ?r t (getSessionKey ''s1'') = Some (RSession ?sd)" for t
    by (simp add: lookup_def getSessionKey_def)
  have x: "expired demo_config 3605001 ?sd" by (simp add: expired_def demo_config_def)
  have c: "client ?r = Connected" by simp
  note d = getSession_diverges [OF c l x]
  have k: "redis_keys ?r 3605001 (getSessionKey ''*'') = Inr [''session:s1'']"
    by (simp add: redis_keys_def cmd_keys_def lookup_def getSessionKey_def)
  have g: "redis_get ?r 3605001 ''session:s1'' = Inr (Some (RSession ?sd))"
    using l [of 3605001] by (simp add: redis_get_session getSessionKey_def)
  have w: "cleanupExpiredSessions n demo_config ?r 3605001 = None" for n
    using d [of n] x by (simp add: cleanupExpiredSessions_def k g)
  show ?thesis
    using u e0 e1 l x d w by blast
qed

section \<open>The most restrictive result\<close>

lemma digit_char_num:
  "digit_char 0 = CHR ''0''" "digit_char 1 = CHR ''1''" "digit_char (Suc 0) = CHR ''1''"
  "digit_char 2 = CHR ''2''" "digit_char 3 = CHR ''3''" "digit_char 4 = CHR ''4''"
  "digit_char 5 = CHR ''5''" "digit_char 6 = CHR ''6''" "digit_char 7 = CHR ''7''"
  "digit_char 8 = CHR ''8''" "digit_char 9 = CHR ''9''"
  by code_simp+

lemma show_int_0: "show_int 0 = ''0''" by (simp add: show_int_def digit_char_num)
lemma show_int_120000: "show_int 120000 = ''120000''" by (simp add: show_int_def digit_char_num)

lemmas rl_eval = checkIPRateLimit_def checkSessionRateLimit_def checkEndpointRateLimit_def
  checkRateLimit_def getCurrentCount_def redis_get_def cmd_get_def lookup_def windowKey_def
  getIPKey_rl_def getSessionKey_rl_def getEndpointKey_def getEndpointRule_def
  DEFAULT_RATE_LIMIT_CONFIG_def nearly_full_store_def ceil_div_def Let_def

lemma demo_ip_check: "checkIPRateLimit DEFAULT_RATE_LIMIT_CONFIG nearly_full_store 125000 ''10.0.0.7''
     = \<lparr>allowed = True, totalRequests = 500, remainingRequests = 0, resetTime = 900,
        retryAfter = None\<rparr>"
  by (simp add: rl_eval show_int_0)

lemma demo_session_check: "checkSessionRateLimit DEFAULT_RATE_LIMIT_CONFIG nearly_full_store 125000 ''abc''
     = \<lparr>allowed = False, totalRequests = 30, remainingRequests = 0, resetTime = 180,
        retryAfter = Some 55\<rparr>"
  by (simp add: rl_eval show_int_120000)

lemma demo_endpoint_check: "checkEndpointRateLimit DEFAULT_RATE_LIMIT_CONFIG nearly_full_store 125000 ''GET'' ''/documents'' ''10.0.0.7''
     = \<lparr>allowed = True, totalRequests = 30, remainingRequests = 29, resetTime = 180,
        retryAfter = None\<rparr>"
  by (simp add: rl_eval show_int_120000 alnum_def)

lemma most_restrictive_example:
  "reduce pick
     [\<lparr>allowed = True, totalRequests = 10, remainingRequests = 5, resetTime = 60, retryAfter = None\<rparr>,
      \<lparr>allowed = False, totalRequests = 10, remainingRequests = 0, resetTime = 60, retryAfter = Some 7\<rparr>,
      \<lparr>allowed = True, totalRequests = 10, remainingRequests = 3, resetTime = 60, retryAfter = None\<rparr>]
   = Inr \<lparr>allowed = False, totalRequests = 10, remainingRequests = 0, resetTime = 60, retryAfter = Some 7\<rparr>"
  by (simp add: reduce_def pick_def)

text \<open>
  Claim C2. The composite result is meant to reject whenever one of the rules rejects.
  The callback of the reduction compares only the remaining counts and keeps the earlier
  result on a tie, so an admitting result with 0 remaining that comes first wins over a
  rejecting one: with the default rules, an address that has made 499 of its 500 requests
  and a session that has used all 30 of its own, the session rule rejects (retry after
  55 s) and the middleware calls \<open>next()\<close> with the address rule's admitting result.
\<close>

theorem admitted_despite_rejecting_rule:
  "fst (use DEFAULT_RATE_LIMIT_CONFIG nearly_full_store 125000 ''GET'' ''/documents'' ''10.0.0.7''
          (Some ''abc''))
     = Next (Some \<lparr>allowed = True, totalRequests = 500, remainingRequests = 0, resetTime = 900,
               retryAfter = None\<rparr>)
   \<and> checkSessionRateLimit DEFAULT_RATE_LIMIT_CONFIG nearly_full_store 125000 ''abc''
     = \<lparr>allowed = False, totalRequests = 30, remainingRequests = 0, resetTime = 180,
        retryAfter = Some 55\<rparr>
   \<and> reduce pick
        [\<lparr>allowed = True, totalRequests = 500, remainingRequests = 0, resetTime = 900,
            retryAfter = None\<rparr>,
         \<lparr>allowed = False, totalRequests = 30, remainingRequests = 0, resetTime = 180,
            retryAfter = Some 55\<rparr>]
     = Inr \<lparr>allowed = True, totalRequests = 500, remainingRequests = 0, resetTime = 900,
            retryAfter = None\<rparr>"
proof -
  have w: "\<not> isIPWhitelisted DEFAULT_RATE_LIMIT_CONFIG ''10.0.0.7''"
    by (simp add: isIPWhitelisted_def DEFAULT_RATE_LIMIT_CONFIG_def)
  have s: "\<not> shouldSkipEndpoint DEFAULT_RATE_LIMIT_CONFIG ''/documents''"
    by (simp add: shouldSkipEndpoint_def DEFAULT_RATE_LIMIT_CONFIG_def startsWith_def)
  show ?thesis
    by (simp add: use_def w s demo_ip_check demo_session_check demo_endpoint_check truthy_def reduce_def pick_def Let_def)
qed

section \<open>The cache\<close>

lemma escape_char_nonempty: "1 \<le> length (escape_char c)"
  by (simp add: escape_char_def)

lemma length_escaped: "length s \<le> length (concat (map escape_char s))"
proof (induction s)
  case Nil
  then show ?case by simp
next
  case (Cons c s)
  then show ?case using escape_char_nonempty [of c] by simp
qed

lemma quote_longer: "length s < length (quote s)"
  using length_escaped [of s] by (simp add: quote_def)

lemma text_is_not_value: "JStr (stringify v) \<noteq> v"
proof (cases v)
  case (JStr s)
  then show ?thesis using quote_longer [of s] by auto
qed simp_all

lemma cache_set_stores:
  assumes conn: "client (backend c) = Connected"
    and ttl: "0 < finalTtl cfg ttl"
    and fits: "getSize (stringify v) \<le> maxValueSize cfg"
  shows "\<exists>c1. cache_set cfg z now c k v ttl = (Inr (), c1)
     \<and> client (backend c1) = Connected
     \<and> lookup (backend c1) now (cacheKey k) =
         Some (REntry \<lparr>entry_value =
                          (if enableCompression cfg \<and> compressionThreshold cfg < getSize (stringify v)
                           then JStr (compress z (stringify v)) else v),
                      entry_ttl = finalTtl cfg ttl,
                      compressed = (enableCompression cfg \<and> compressionThreshold cfg < getSize (stringify v)),
                      entry_size =
                          (if enableCompression cfg \<and> compressionThreshold cfg < getSize (stringify v)
                           then getSize (compress z (stringify v)) else getSize (stringify v)),
                      entry_createdAt = now, lastAccessed = now\<rparr>)"
  using assms
  by (auto simp: cache_set_def Let_def setToRedis_def cmd_setex_def lookup_store)

text \<open>
  Claim C3. A successful \<open>set(k, V, ttl)\<close> followed at once by \<open>get(k)\<close> returns \<open>V\<close>
  when \<open>V\<close> is stored uncompressed. When the serialized size is above the compression
  threshold, \<open>get\<close> decompresses the stored text and returns that text, the string
  \<open>JSON.stringify(V)\<close>, without parsing it: a value that is never equal to \<open>V\<close>.
\<close>

theorem get_after_set:
  assumes conn: "client (backend c) = Connected"
    and ttl: "0 < finalTtl cfg ttl"
    and fits: "getSize (stringify v) \<le> maxValueSize cfg"
    and rt: "inflate z (deflate z (stringify v)) = Some (stringify v)"
  shows "\<exists>c1 c2. cache_set cfg z now c k v ttl = (Inr (), c1)
     \<and> cache_get z now c1 k =
         (if enableCompression cfg \<and> compressionThreshold cfg < getSize (stringify v)
          then JStr (stringify v) else v, c2)
     \<and> JStr (stringify v) \<noteq> v"
proof -
  from cache_set_stores [OF conn ttl fits, of z now k]
  obtain c1 where c1: "cache_set cfg z now c k v ttl = (Inr (), c1)"
    "client (backend c1) = Connected"
    "lookup (backend c1) now (cacheKey k) =
         Some (REntry \<lparr>entry_value =
                          (if enableCompression cfg \<and> compressionThreshold cfg < getSize (stringify v)
                           then JStr (compress z (stringify v)) else v),
                      entry_ttl = finalTtl cfg ttl,
                      compressed = (enableCompression cfg \<and> compressionThreshold cfg < getSize (stringify v)),
                      entry_size =
                          (if enableCompression cfg \<and> compressionThreshold cfg < getSize (stringify v)
                           then getSize (compress z (stringify v)) else getSize (stringify v)),
                      entry_createdAt = now, lastAccessed = now\<rparr>)"
    by blast
  have "\<exists>c2. cache_get z now c1 k =
         (if enableCompression cfg \<and> compressionThreshold cfg < getSize (stringify v)
          then JStr (stringify v) else v, c2)"
    using c1(2) c1(3) ttl rt
    by (auto simp: cache_get_def Let_def getFromRedis_def cmd_get_def isExpired_def setToRedis_def
        cmd_setex_def compress_def decompress_def)
  then show ?thesis using c1(1) text_is_not_value by blast
qed

lemma quote_12a: "quote ''aaaaaaaaaaaa'' = CHR 0x22 # ''aaaaaaaaaaaa'' @ [CHR 0x22]"
  by (simp add: quote_def escape_char_def)

theorem get_after_set_witness:
  "\<exists>c1 c2. cache_set tiny_config run_length 1000 empty_cache ''k'' (JStr ''aaaaaaaaaaaa'') None
              = (Inr (), c1)
     \<and> cache_get run_length 1000 c1 ''k'' = (JStr (CHR 0x22 # ''aaaaaaaaaaaa'' @ [CHR 0x22]), c2)"
proof -
  have conn: "client (backend empty_cache) = Connected" by (simp add: empty_cache_def)
  have ttl: "0 < finalTtl tiny_config None" by (simp add: finalTtl_def tiny_config_def)
  have fits: "getSize (stringify (JStr ''aaaaaaaaaaaa'')) \<le> maxValueSize tiny_config"
    by (simp add: quote_12a getSize_def tiny_config_def)
  have rt: "inflate run_length (deflate run_length (stringify (JStr ''aaaaaaaaaaaa'')))
      = Some (stringify (JStr ''aaaaaaaaaaaa''))"
    by code_simp
  from get_after_set [OF conn ttl fits rt, of 1000 "''k''"]
  show ?thesis by (simp add: quote_12a getSize_def tiny_config_def)
qed

lemma size_20a:
  "getSize (stringify (JStr ''aaaaaaaaaaaaaaaaaaaa'')) = 22"
  "getSize (compress run_length (stringify (JStr ''aaaaaaaaaaaaaaaaaaaa''))) = 6"
  by code_simp+

lemma size_abc:
  "getSize (stringify (JStr ''abcdefgh'')) = 10"
  "getSize (compress run_length (stringify (JStr ''abcdefgh''))) = 20"
  by code_simp+

text \<open>
  Claim C6, as stated, fails in both directions. With a maximum of 16 bytes, a value whose
  serialized text has 22 bytes and compresses to 6 is rejected; a value whose serialized
  text has 10 bytes and "compresses" to 20 is accepted.
\<close>

theorem size_checked_before_compression_counterexample:
  "getSize (stringify (JStr ''aaaaaaaaaaaaaaaaaaaa'')) = 22
   \<and> getSize (compress run_length (stringify (JStr ''aaaaaaaaaaaaaaaaaaaa''))) = 6
   \<and> maxValueSize tiny_config = 16
   \<and> cache_set tiny_config run_length 1000 empty_cache ''k'' (JStr ''aaaaaaaaaaaaaaaaaaaa'') None
       = (Inl ValueTooLarge,
          empty_cache\<lparr>metrics := \<lparr>hits = 0, misses = 0, sets = 1, deletes = 0, operations = 1\<rparr>\<rparr>)
   \<and> getSize (stringify (JStr ''abcdefgh'')) = 10
   \<and> getSize (compress run_length (stringify (JStr ''abcdefgh''))) = 20
   \<and> fst (cache_set tiny_config run_length 1000 empty_cache ''k'' (JStr ''abcdefgh'') None) = Inr ()"
  by (simp add: size_20a size_abc tiny_config_def cache_set_def empty_cache_def Let_def
      finalTtl_def setToRedis_def cmd_setex_def del: stringify.simps)

text \<open>
  Claim C6, amended. \<open>set\<close> checks the size of the serialized value before any
  compression. It fails if and only if that size exceeds the configured maximum, or the
  write to the store fails (no connection, or a time-to-live that is not positive); a
  value over the maximum is rejected whatever its compressed size would be. A failing
  \<open>set\<close> leaves the store as it was. A successful \<open>set\<close> stores the whole value: as it
  is, or, above the compression threshold, as the whole compressed text, whose size is
  not checked against the maximum.
\<close>

theorem set_fails_iff:
  "((\<exists>e. fst (cache_set cfg z now c k v ttl) = Inl e) \<longleftrightarrow>
       maxValueSize cfg < getSize (stringify v) \<or> client (backend c) \<noteq> Connected
       \<or> finalTtl cfg ttl \<le> 0)
   \<and> (maxValueSize cfg < getSize (stringify v) \<longrightarrow>
        fst (cache_set cfg z now c k v ttl) = Inl ValueTooLarge)
   \<and> (fst (cache_set cfg z now c k v ttl) \<noteq> Inr () \<longrightarrow>
        backend (snd (cache_set cfg z now c k v ttl)) = backend c)
   \<and> (fst (cache_set cfg z now c k v ttl) = Inr () \<longrightarrow>
        lookup (backend (snd (cache_set cfg z now c k v ttl))) now (cacheKey k) =
          Some (REntry \<lparr>entry_value =
                          (if enableCompression cfg \<and> compressionThreshold cfg < getSize (stringify v)
                           then JStr (compress z (stringify v)) else v),
                      entry_ttl = finalTtl cfg ttl,
                      compressed = (enableCompression cfg \<and> compressionThreshold cfg < getSize (stringify v)),
                      entry_size =
                          (if enableCompression cfg \<and> compressionThreshold cfg < getSize (stringify v)
                           then getSize (compress z (stringify v)) else getSize (stringify v)),
                      entry_createdAt = now, lastAccessed = now\<rparr>))"
  by (auto simp: cache_set_def Let_def setToRedis_def cmd_setex_def lookup_store down_def
      split: if_splits)

theorem set_fails_iff_witness:
  "fst (cache_set tiny_config run_length 1000 empty_cache ''k'' (JStr ''aaaaaaaaaaaaaaaaaaaa'') None)
     = Inl ValueTooLarge
   \<and> backend (snd (cache_set tiny_config run_length 1000 empty_cache ''k''
         (JStr ''aaaaaaaaaaaaaaaaaaaa'') None)) = backend empty_cache
   \<and> fst (cache_set tiny_config run_length 1000 empty_cache ''k'' (JStr ''abcdefgh'') None) = Inr ()
   \<and> (\<exists>e. lookup (backend (snd (cache_set tiny_config run_length 1000 empty_cache ''k''
                (JStr ''abcdefgh'') None))) 1000 (cacheKey ''k'') = Some (REntry e)
          \<and> compressed e \<and> entry_size e = 20)"
proof -
  let ?big = "JStr ''aaaaaaaaaaaaaaaaaaaa''" and ?odd = "JStr ''abcdefgh''"
  have big: "maxValueSize tiny_config < getSize (stringify ?big)"
    by (simp add: size_20a tiny_config_def del: stringify.simps)
  have odd: "\<not> maxValueSize tiny_config < getSize (stringify ?odd)"
      "compressionThreshold tiny_config < getSize (stringify ?odd)" "enableCompression tiny_config"
    by (simp_all add: size_abc tiny_config_def del: stringify.simps)
  have ok: "client (backend empty_cache) = Connected" "\<not> finalTtl tiny_config None \<le> 0"
    by (simp_all add: empty_cache_def finalTtl_def tiny_config_def)
  note a = set_fails_iff [of tiny_config run_length 1000 empty_cache "''k''" ?big None]
  note b = set_fails_iff [of tiny_config run_length 1000 empty_cache "''k''" ?odd None]
  have 1: "fst (cache_set tiny_config run_length 1000 empty_cache ''k'' ?big None) = Inl ValueTooLarge"
    using a big by blast
  then have 2: "backend (snd (cache_set tiny_config run_length 1000 empty_cache ''k'' ?big None))
      = backend empty_cache"
    using a by simp
  have "\<not> (\<exists>e. fst (cache_set tiny_config run_length 1000 empty_cache ''k'' ?odd None) = Inl e)"
    using b odd ok by blast
  then have 3: "fst (cache_set tiny_config run_length 1000 empty_cache ''k'' ?odd None) = Inr ()"
    by (cases "fst (cache_set tiny_config run_length 1000 empty_cache ''k'' ?odd None)") auto
  then have 4: "\<exists>e. lookup (backend (snd (cache_set tiny_config run_length 1000 empty_cache ''k''
                ?odd None))) 1000 (cacheKey ''k'') = Some (REntry e)
          \<and> compressed e \<and> entry_size e = 20"
    using b odd by (simp add: size_abc del: stringify.simps)
  show ?thesis using 1 2 3 4 by blast
qed

section \<open>The chat handler\<close>

lemma no_stale_iff:
  "no_stale cfg r now \<longleftrightarrow>
   (\<forall>k sd. lookup r now k = Some (RSession sd) \<longrightarrow> \<not> expired cfg now sd)"
proof
  assume a: "no_stale cfg r now"
  show "\<forall>k sd. lookup r now k = Some (RSession sd) \<longrightarrow> \<not> expired cfg now sd"
  proof (intro allI impI)
    fix k sd assume l: "lookup r now k = Some (RSession sd)"
    then have "k \<in> fst ` set (kv r)"
      by (auto simp: lookup_def split: option.splits dest: map_of_SomeD intro: rev_image_eqI)
    then show "\<not> expired cfg now sd"
      using a l by (auto simp: no_stale_def list_all_iff)
  qed
next
  assume "\<forall>k sd. lookup r now k = Some (RSession sd) \<longrightarrow> \<not> expired cfg now sd"
  then show "no_stale cfg r now"
    by (auto simp: no_stale_def list_all_iff split: option.splits rvalue.splits)
qed

lemma no_stale_store:
  "no_stale cfg r now \<Longrightarrow> \<forall>sd. v = RSession sd \<longrightarrow> \<not> expired cfg now sd \<Longrightarrow>
   no_stale cfg (store r k v e) now"
  by (auto simp: no_stale_iff lookup_store split: if_splits option.splits)

lemma no_stale_remove: "no_stale cfg r now \<Longrightarrow> no_stale cfg (remove r k) now"
  by (auto simp: no_stale_iff lookup_remove split: if_splits)

lemma srem_quiet:
  "\<exists>m r'. srem r now k ms = Inr (m, r') \<and> (no_stale cfg r now \<longrightarrow> no_stale cfg r' now)
     \<and> published r' = published r"
  by (auto simp: srem_def cmd_srem_def Let_def no_stale_remove intro!: no_stale_store
      split: option.splits rvalue.splits)

lemma sadd_quiet:
  "\<exists>m r'. sadd r now k ms = Inr (m, r') \<and> (no_stale cfg r now \<longrightarrow> no_stale cfg r' now)
     \<and> published r' = published r"
  by (auto simp: sadd_def cmd_sadd_def Let_def intro!: no_stale_store
      split: option.splits rvalue.splits)

lemma redis_expire_quiet:
  "\<exists>b r'. redis_expire r now k t = Inr (b, r') \<and> (no_stale cfg r now \<longrightarrow> no_stale cfg r' now)
     \<and> published r' = published r"
proof (cases "client r = Connected \<and> lookup r now k \<noteq> None")
  case True
  then obtain v where v: "lookup r now k = Some v" by auto
  have "no_stale cfg (store r k v e) now" if "no_stale cfg r now" for e
    using that v by (intro no_stale_store) (auto simp: no_stale_iff)
  then show ?thesis using True v by (auto simp: redis_expire_def cmd_expire_def)
next
  case False
  then show ?thesis by (auto simp: redis_expire_def cmd_expire_def split: option.splits)
qed

lemma redis_incr_quiet:
  "\<exists>c r'. redis_incr r now k = Inr (c, r') \<and> (no_stale cfg r now \<longrightarrow> no_stale cfg r' now)
     \<and> published r' = published r"
  by (auto simp: redis_incr_def cmd_incr_def intro!: no_stale_store split: option.splits rvalue.splits)

lemma setWithExpiry_quiet:
  "\<forall>sd. v = RSession sd \<longrightarrow> \<not> expired cfg now sd \<Longrightarrow>
   \<exists>r'. setWithExpiry r now k v t = Inr r' \<and> (no_stale cfg r now \<longrightarrow> no_stale cfg r' now)
     \<and> published r' = published r"
  by (auto simp: setWithExpiry_def cmd_setex_def intro!: no_stale_store)

lemma redis_set_quiet:
  "\<exists>r'. redis_set r now k v t = Inr r' \<and> published r' = published r"
  by (auto simp: redis_set_def cmd_setex_def cmd_set_def)

lemma recordRequest_quiet:
  "(no_stale cfg r now \<longrightarrow> no_stale cfg (recordRequest r now k rule) now)
   \<and> published (recordRequest r now k rule) = published r"
proof -
  obtain c r1 where i: "redis_incr r now (windowKey k (now div windowMs rule * windowMs rule)) = Inr (c, r1)"
    "no_stale cfg r now \<longrightarrow> no_stale cfg r1 now" "published r1 = published r"
    using redis_incr_quiet by blast
  obtain b r2 where e: "redis_expire r1 now (windowKey k (now div windowMs rule * windowMs rule))
      (ceil_div (windowMs rule) 1000 + 1) = Inr (b, r2)"
    "no_stale cfg r1 now \<longrightarrow> no_stale cfg r2 now" "published r2 = published r1"
    using redis_expire_quiet by blast
  show ?thesis
    using i e by (auto simp: recordRequest_def incrementCount_def Let_def)
qed

lemma getSession_no_stale:
  assumes "no_stale cfg r now"
  shows "\<exists>found. getSession (Suc n) cfg r now sid = Some (found, r)"
proof (cases "redis_get r now (getSessionKey sid)")
  case (Inl e)
  then show ?thesis by (simp add: getSession.simps)
next
  case (Inr v)
  show ?thesis
  proof (cases v)
    case None
    then show ?thesis using Inr by (simp add: getSession.simps)
  next
    case (Some val)
    show ?thesis
    proof (cases val)
      case (RSession sd)
      then have "lookup r now (getSessionKey sid) = Some (RSession sd)"
        using Inr Some by (simp add: redis_get_session)
      then have "\<not> expired cfg now sd" using assms by (simp add: no_stale_iff)
      then show ?thesis using Inr Some RSession by (simp add: getSession.simps)
    qed (use Inr Some in \<open>simp_all add: getSession.simps\<close>)
  qed
qed

lemma countValid_returns:
  "no_stale cfg r now \<Longrightarrow>
   \<exists>res r'. countValid (Suc n) cfg r now k ids c = Some (res, r')
     \<and> no_stale cfg r' now \<and> published r' = published r"
proof (induction ids arbitrary: r c)
  case Nil
  then show ?case by simp
next
  case (Cons x xs)
  obtain found where g: "getSession (Suc n) cfg r now x = Some (found, r)"
    using getSession_no_stale [OF Cons.prems] by blast
  show ?case
  proof (cases found)
    case None
    obtain m r2 where s: "srem r now k [x] = Inr (m, r2)" "no_stale cfg r2 now"
      "published r2 = published r"
      using srem_quiet [of r now k "[x]" cfg] Cons.prems by blast
    from Cons.IH [OF s(2), of c] show ?thesis using g None s by auto
  next
    case (Some sd)
    from Cons.IH [OF Cons.prems, of "c + 1"] show ?thesis using g Some by auto
  qed
qed

lemma getSessionCountByIP_returns:
  assumes "no_stale cfg r now"
  shows "\<exists>cnt r'. getSessionCountByIP (Suc n) cfg r now ip = Some (cnt, r')
     \<and> no_stale cfg r' now \<and> published r' = published r"
proof (cases "smembers r now (getIPKey ip)")
  case (Inl e)
  then show ?thesis using assms by (simp add: getSessionCountByIP_def)
next
  case (Inr ids)
  obtain res r' where c: "countValid (Suc n) cfg r now (getIPKey ip) ids 0 = Some (res, r')"
    "no_stale cfg r' now" "published r' = published r"
    using countValid_returns [OF assms] by blast
  then show ?thesis using Inr by (cases res) (simp_all add: getSessionCountByIP_def)
qed

lemma createSession_returns:
  assumes "no_stale cfg r now"
  shows "\<exists>res r'. createSession (Suc n) cfg r now sid ip ua = Some (res, r')
     \<and> no_stale cfg r' now \<and> published r' = published r"
proof -
  obtain cnt r1 where c: "getSessionCountByIP (Suc n) cfg r now ip = Some (cnt, r1)"
    "no_stale cfg r1 now" "published r1 = published r"
    using getSessionCountByIP_returns [OF assms] by blast
  let ?sd = "\<lparr>sessionId = sid, createdAt = now, lastActivity = now,
                   ipAddress = ip, userAgent = ua, messageCount = 0, isActive = True\<rparr>"
  show ?thesis
  proof (cases "cnt \<ge> maxSessionsPerIP cfg")
    case True
    then show ?thesis using c by (simp add: createSession_def)
  next
    case False
    show ?thesis
    proof (cases "0 < sessionTtl cfg")
      case ttl: True
      then have fresh: "\<forall>sd. RSession ?sd = RSession sd \<longrightarrow> \<not> expired cfg now sd"
        by (auto simp: expired_def)
      obtain r2 where w: "setWithExpiry r1 now (getSessionKey sid) (RSession ?sd) (sessionTtl cfg) = Inr r2"
        "no_stale cfg r2 now" "published r2 = published r1"
        using setWithExpiry_quiet [OF fresh] c(2) by blast
      obtain a r3 where a: "sadd r2 now (getIPKey ip) [sid] = Inr (a, r3)"
        "no_stale cfg r3 now" "published r3 = published r2"
        using sadd_quiet [of r2 now "getIPKey ip" "[sid]" cfg] w(2) by blast
      obtain b r4 where x: "redis_expire r3 now (getIPKey ip) (sessionTtl cfg) = Inr (b, r4)"
        "no_stale cfg r4 now" "published r4 = published r3"
        using redis_expire_quiet [of r3 now "getIPKey ip" "sessionTtl cfg" cfg] a(2) by blast
      show ?thesis
        using False c w a x by (simp add: createSession_def Let_def)
    next
      case ttl: False
      then have w: "setWithExpiry r1 now (getSessionKey sid) (RSession ?sd) (sessionTtl cfg) = Inr r1"
        by (simp add: setWithExpiry_def cmd_setex_def)
      obtain a r3 where a: "sadd r1 now (getIPKey ip) [sid] = Inr (a, r3)"
        "no_stale cfg r3 now" "published r3 = published r1"
        using sadd_quiet [of r1 now "getIPKey ip" "[sid]" cfg] c(2) by blast
      obtain b r4 where x: "redis_expire r3 now (getIPKey ip) (sessionTtl cfg) = Inr (b, r4)"
        "no_stale cfg r4 now" "published r4 = published r3"
        using redis_expire_quiet [of r3 now "getIPKey ip" "sessionTtl cfg" cfg] a(2) by blast
      show ?thesis
        using False c w a x by (simp add: createSession_def Let_def)
    qed
  qed
qed

lemma validateSession_returns:
  assumes "no_stale cfg r now"
  shows "\<exists>ok. validateSession (Suc n) cfg r now sid ip = Some (ok, r)"
proof -
  obtain found where "getSession (Suc n) cfg r now sid = Some (found, r)"
    using getSession_no_stale [OF assms] by blast
  then show ?thesis by (cases found) (auto simp: validateSession_def)
qed

lemma updateSession_returns:
  assumes "no_stale cfg r now"
  shows "\<exists>res r'. updateSession (Suc n) cfg r now sid u = Some (res, r')
     \<and> published r' = published r"
proof -
  obtain found where g: "getSession (Suc n) cfg r now sid = Some (found, r)"
    using getSession_no_stale [OF assms] by blast
  show ?thesis
  proof (cases found)
    case None
    then show ?thesis using g by (simp add: updateSession_def)
  next
    case (Some sd)
    show ?thesis
    proof (cases "extendOnActivity cfg")
      case True
      then show ?thesis using g Some
        by (auto simp: updateSession_def Let_def setWithExpiry_def cmd_setex_def split: sum.splits)
    next
      case False
      obtain r2 where "redis_set r now (getSessionKey sid) (RSession (applyUpdates now sd u)) None = Inr r2"
        "published r2 = published r"
        using redis_set_quiet by blast
      then show ?thesis using g Some False by (simp add: updateSession_def Let_def)
    qed
  qed
qed

lemma incrementMessageCount_returns:
  assumes "no_stale cfg r now"
  shows "\<exists>res r'. incrementMessageCount (Suc n) cfg r now sid = Some (res, r')
     \<and> published r' = published r"
proof -
  obtain found where g: "getSession (Suc n) cfg r now sid = Some (found, r)"
    using getSession_no_stale [OF assms] by blast
  show ?thesis
  proof (cases found)
    case None
    then show ?thesis using g by (simp add: incrementMessageCount_def)
  next
    case (Some sd)
    obtain res r' where "updateSession (Suc n) cfg r now sid
        \<lparr>upd_lastActivity = Some now, upd_messageCount = Some (messageCount sd + 1),
         upd_isActive = None\<rparr> = Some (res, r')" "published r' = published r"
      using updateSession_returns [OF assms] by blast
    then show ?thesis using g Some
      by (cases res) (simp_all add: incrementMessageCount_def Let_def)
  qed
qed

lemma sendErrorToClient_terminating: "terminating (sendErrorToClient now c m)"
  by (simp add: terminating_def sendErrorToClient_def)

lemma resolveSession_returns:
  assumes "no_stale cfg r now"
  shows "\<exists>res r'. resolveSession (Suc n) cfg r now sid ip ua = Some (res, r')
     \<and> no_stale cfg r' now \<and> published r' = published r
     \<and> (\<forall>em. res = Inl em \<longrightarrow> (\<exists>c m. em = sendErrorToClient now c m))"
proof -
  obtain found where g: "getSession (Suc n) cfg r now sid = Some (found, r)"
    using getSession_no_stale [OF assms] by blast
  show ?thesis
  proof (cases found)
    case None
    obtain res r' where c: "createSession (Suc n) cfg r now sid ip ua = Some (res, r')"
      "no_stale cfg r' now" "published r' = published r"
      using createSession_returns [OF assms] by blast
    then show ?thesis using g None
      by (cases res) (auto simp: resolveSession_def)
  next
    case (Some sd)
    obtain ok where "validateSession (Suc n) cfg r now sid (Some ip) = Some (ok, r)"
      using validateSession_returns [OF assms] by blast
    then show ?thesis using g Some assms
      by (auto simp: resolveSession_def)
  qed
qed

text \<open>
  On a store without expired records the handler returns a result: for a message that is
  not admitted one error object, and for an admitted one what \<open>relay\<close> gives. Nothing is
  published.
\<close>

lemma handleChatMessage_shape:
  assumes "no_stale scfg (gw_redis g) now"
  shows "\<exists>out. handleChatMessage (Suc n) scfg rcfg grpc now g data sock = Some out
     \<and> published (gw_redis (gw out)) = published (gw_redis g)
     \<and> (admitted (Suc n) scfg rcfg now g data sock \<longrightarrow>
          emitted out = fst (relay grpc now data (the (req_sessionId data)))
          \<and> returned out = snd (relay grpc now data (the (req_sessionId data))))
     \<and> (\<not> admitted (Suc n) scfg rcfg now g data sock \<longrightarrow>
          returned out \<and> (\<exists>c m. emitted out = [sendErrorToClient now c m]))"
proof (cases "\<not> truthy (message data) \<or> \<not> truthy (req_sessionId data)")
  case True
  then show ?thesis
    by (auto simp: handleChatMessage_def admitted_def)
next
  case valid: False
  let ?sid = "the (req_sessionId data)"
  let ?ua = "if truthy (userAgentHeader sock) then the (userAgentHeader sock) else ''Unknown''"
  obtain res r2 where rs: "resolveSession (Suc n) scfg (gw_redis g) now ?sid (getClientIP sock) ?ua
      = Some (res, r2)" "no_stale scfg r2 now" "published r2 = published (gw_redis g)"
    "\<forall>em. res = Inl em \<longrightarrow> (\<exists>c m. em = sendErrorToClient now c m)"
    using resolveSession_returns [OF assms] by blast
  show ?thesis
  proof (cases res)
    case (Inl em)
    then obtain c m where "em = sendErrorToClient now c m" using rs(4) by blast
    then show ?thesis using valid rs Inl
      by (auto simp: handleChatMessage_def admitted_def Let_def)
  next
    case (Inr u)
    show ?thesis
    proof (cases "allowed (checkWebSocketMessageLimit rcfg r2 now ?sid)")
      case False
      then show ?thesis using valid rs Inr
        by (auto simp: handleChatMessage_def admitted_def Let_def)
    next
      case True
      let ?r3 = "recordWebSocketMessage rcfg r2 now ?sid"
      have r3: "no_stale scfg ?r3 now" "published ?r3 = published r2"
        using recordRequest_quiet [of scfg r2 now] rs(2) by (simp_all add: recordWebSocketMessage_def)
      obtain counted r4 where "incrementMessageCount (Suc n) scfg ?r3 now ?sid = Some (counted, r4)"
        "published r4 = published ?r3"
        using incrementMessageCount_returns [OF r3(1)] by blast
      then show ?thesis using valid rs Inr True r3
        by (simp add: handleChatMessage_def admitted_def Let_def)
    qed
  qed
qed

text \<open>
  A message for a session that the store holds, unexpired and active and created from the
  client's address, is admitted when the session's message quota admits it.
\<close>

lemma admitted_known_session:
  assumes valid: "truthy (message data)" "req_sessionId data = Some sid" "sid \<noteq> []"
    and conn: "client (gw_redis g) = Connected"
    and here: "lookup (gw_redis g) now (getSessionKey sid) = Some (RSession sd)"
    and live: "\<not> expired scfg now sd" "isActive sd" "ipAddress sd = getClientIP sock"
    and quota: "allowed (checkWebSocketMessageLimit rcfg (gw_redis g) now sid)"
  shows "admitted (Suc n) scfg rcfg now g data sock"
proof -
  have g: "getSession (Suc n) scfg (gw_redis g) now sid = Some (Some sd, gw_redis g)"
    using conn here live(1) by (simp add: getSession_found)
  have "resolveSession (Suc n) scfg (gw_redis g) now sid (getClientIP sock) ua
      = Some (Inr (), gw_redis g)" for ua
    using live by (simp add: resolveSession_def validateSession_def g)
  then show ?thesis using valid quota by (simp add: admitted_def truthy_def)
qed

lemma first_message_resolves:
  "resolveSession (Suc 0) DEFAULT_SESSION_CONFIG (gw_redis fresh_gateway) 125000 ''s1'' ''10.0.0.7''
     ''Mozilla/5.0'' = Some (Inr (), first_session_store)"
  by (simp add: resolveSession_def getSession.simps redis_get_def cmd_get_def lookup_def
      fresh_gateway_def getSessionKey_def createSession_def getSessionCountByIP_def smembers_def
      cmd_smembers_def getIPKey_def DEFAULT_SESSION_CONFIG_def setWithExpiry_def cmd_setex_def
      store_def sadd_def cmd_sadd_def redis_expire_def cmd_expire_def Let_def expiry_def
      first_session_store_def first_session_def)

lemma first_message_allowed:
  "checkWebSocketMessageLimit DEFAULT_RATE_LIMIT_CONFIG first_session_store 125000 ''s1''
   = \<lparr>allowed = True, totalRequests = 25, remainingRequests = 24, resetTime = 180,
      retryAfter = None\<rparr>"
  by (simp add: checkWebSocketMessageLimit_def checkRateLimit_def getCurrentCount_def redis_get_def
      cmd_get_def lookup_def windowKey_def getWebSocketMessageKey_def DEFAULT_RATE_LIMIT_CONFIG_def
      first_session_store_def ceil_div_def Let_def show_int_120000)

lemma first_message_recorded:
  "recordWebSocketMessage DEFAULT_RATE_LIMIT_CONFIG first_session_store 125000 ''s1''
   = counted_store 0"
  by (simp add: recordWebSocketMessage_def recordRequest_def incrementCount_def redis_incr_def
      cmd_incr_def redis_expire_def cmd_expire_def lookup_def store_def windowKey_def
      getWebSocketMessageKey_def DEFAULT_RATE_LIMIT_CONFIG_def first_session_store_def
      counted_store_def ceil_div_def Let_def show_int_120000)

lemma first_message_counted:
  "incrementMessageCount (Suc 0) DEFAULT_SESSION_CONFIG (counted_store 0) 125000 ''s1''
   = Some (Inr 1, counted_store 1)"
  by (simp add: incrementMessageCount_def updateSession_def getSession.simps redis_get_def
      cmd_get_def lookup_def getSessionKey_def expired_def DEFAULT_SESSION_CONFIG_def
      applyUpdates_def setWithExpiry_def cmd_setex_def store_def counted_store_def
      first_session_def Let_def)

lemma first_message_fields:
  "getClientIP browser = ''10.0.0.7''"
  "truthy (message first_message)" "truthy (req_sessionId first_message)"
  "the (req_sessionId first_message) = ''s1''" "truthy (userAgentHeader browser)"
  "the (userAgentHeader browser) = ''Mozilla/5.0''" "socket_id browser = ''c1''"
  by (simp_all add: getClientIP_def first_message_def browser_def truthy_def)

lemma first_message_admitted:
  "admitted (Suc 0) DEFAULT_SESSION_CONFIG DEFAULT_RATE_LIMIT_CONFIG 125000 fresh_gateway
     first_message browser"
  by (simp add: admitted_def first_message_fields first_message_resolves first_message_allowed)

lemma first_message_handled:
  "handleChatMessage (Suc 0) DEFAULT_SESSION_CONFIG DEFAULT_RATE_LIMIT_CONFIG grpc 125000
     fresh_gateway first_message browser
   = Some \<lparr>emitted = fst (relay grpc 125000 first_message ''s1''), gw = after_first_message,
           returned = snd (relay grpc 125000 first_message ''s1'')\<rparr>"
proof -
  have f: "fresh_gateway\<lparr>gw_redis := counted_store 1,
      connectedClients := AList.update ''c1'' ''s1'' (connectedClients fresh_gateway)\<rparr>
      = after_first_message"
    by (simp add: fresh_gateway_def after_first_message_def)
  show ?thesis
    by (simp add: handleChatMessage_def Let_def first_message_fields first_message_resolves
        first_message_allowed first_message_recorded first_message_counted f)
qed

lemma first_message_answers:
  "sendMessage (answering text) first_message
   = Some (Inr \<lparr>response = text, resp_sessionId = ''s1'', sources = [], toolCalls = [],
                reasoning = []\<rparr>)"
  "sendMessage (\<lambda>req. GrpcError) first_message = Some (Inl AgentFailure)"
  "sendMessage silent first_message = None"
  by (simp_all add: sendMessage_def answering_def silent_def or_else_def first_message_def
      truthy_def)

lemma no_stale_fresh: "no_stale DEFAULT_SESSION_CONFIG (gw_redis fresh_gateway) 125000"
  by (simp add: no_stale_def fresh_gateway_def)

lemma typing_not_terminating: "\<not> terminating (typingIndicator sid)"
  by (simp add: terminating_def typingIndicator_def)

lemma chat_terminating: "terminating (Chat m) = isDone m"
  by (simp add: terminating_def)

lemma relay_terminating:
  "list_ex terminating (fst (relay grpc now data sid)) \<longleftrightarrow>
   \<not> (sendMessage grpc data = None
      \<or> (\<exists>resp. sendMessage grpc data = Some (Inr resp) \<and> response resp = []))"
  by (auto simp: relay_def typing_not_terminating sendErrorToClient_terminating chat_terminating
      split: option.splits sum.splits)

lemma relay_last:
  "list_ex terminating (fst (relay grpc now data sid)) \<Longrightarrow>
   terminating (last (fst (relay grpc now data sid)))"
  by (auto simp: relay_def typing_not_terminating sendErrorToClient_terminating chat_terminating
      split: option.splits sum.splits if_splits)

lemma relay_silent:
  "\<not> list_ex terminating (fst (relay grpc now data sid)) \<Longrightarrow>
   fst (relay grpc now data sid) = [typingIndicator sid]"
  by (auto simp: relay_def typing_not_terminating sendErrorToClient_terminating chat_terminating
      split: option.splits sum.splits if_splits)

lemma relay_returned: "snd (relay grpc now data sid) \<longleftrightarrow> sendMessage grpc data \<noteq> None"
  by (auto simp: relay_def split: option.splits sum.splits)

text \<open>
  Claim C4, as stated, fails on two paths of a valid, admitted first message. When the
  inference call succeeds with an empty response text, the handler returns having emitted
  the typing indicator (\<open>done = false\<close>) and nothing else. When the inference call never
  settles (no deadline is set on it), the handler never returns and the typing indicator
  is all that has been emitted. Neither a final chat message nor an error object is
  delivered.
\<close>

theorem empty_answer_ends_silently_counterexample:
  "handleChatMessage (Suc 0) DEFAULT_SESSION_CONFIG DEFAULT_RATE_LIMIT_CONFIG (answering [])
     125000 fresh_gateway first_message browser
   = Some \<lparr>emitted = [typingIndicator ''s1''], gw = after_first_message, returned = True\<rparr>
   \<and> handleChatMessage (Suc 0) DEFAULT_SESSION_CONFIG DEFAULT_RATE_LIMIT_CONFIG silent
     125000 fresh_gateway first_message browser
   = Some \<lparr>emitted = [typingIndicator ''s1''], gw = after_first_message, returned = False\<rparr>
   \<and> \<not> list_ex terminating [typingIndicator ''s1'']
   \<and> truthy (message first_message) \<and> truthy (req_sessionId first_message)"
proof -
  have "truthy (message first_message)" "truthy (req_sessionId first_message)"
    by (simp_all add: first_message_def truthy_def)
  moreover have "\<not> list_ex terminating [typingIndicator ''s1'']"
    by (simp add: terminating_def typingIndicator_def)
  ultimately show ?thesis
    by (simp add: first_message_handled relay_def first_message_answers)
qed

text \<open>
  Claim C4, amended. On a store that holds no expired session record, every inbound
  message gives a result, and a terminating message (a chat message with \<open>done = true\<close>,
  or an error object with \<open>error\<close>, \<open>code\<close>, \<open>message\<close> and \<open>timestamp\<close>) has been
  emitted on every path but two, both of an admitted message: the inference call never
  settles, or it succeeds with an empty response text. On these two paths the typing
  indicator is all that is emitted, and on the first of them, and only there, the handler
  does not return. A terminating message, when there is one, is the last message emitted.
\<close>

theorem chat_message_resolution:
  assumes "no_stale scfg (gw_redis g) now"
  shows "\<exists>out. handleChatMessage (Suc n) scfg rcfg grpc now g data sock = Some out
     \<and> (returned out \<longleftrightarrow>
          \<not> (admitted (Suc n) scfg rcfg now g data sock \<and> sendMessage grpc data = None))
     \<and> (list_ex terminating (emitted out) \<longleftrightarrow>
          \<not> (admitted (Suc n) scfg rcfg now g data sock
             \<and> (sendMessage grpc data = None
                \<or> (\<exists>resp. sendMessage grpc data = Some (Inr resp) \<and> response resp = []))))
     \<and> (list_ex terminating (emitted out) \<longrightarrow> terminating (last (emitted out)))
     \<and> (\<not> list_ex terminating (emitted out) \<longrightarrow>
          emitted out = [typingIndicator (the (req_sessionId data))])"
proof -
  let ?sid = "the (req_sessionId data)"
  from handleChatMessage_shape [OF assms, of n rcfg grpc data sock]
  obtain out where h: "handleChatMessage (Suc n) scfg rcfg grpc now g data sock = Some out"
    and a: "admitted (Suc n) scfg rcfg now g data sock \<Longrightarrow>
          emitted out = fst (relay grpc now data ?sid) \<and> returned out = snd (relay grpc now data ?sid)"
    and b: "\<not> admitted (Suc n) scfg rcfg now g data sock \<Longrightarrow>
          returned out \<and> (\<exists>c m. emitted out = [sendErrorToClient now c m])"
    by blast
  show ?thesis
  proof (cases "admitted (Suc n) scfg rcfg now g data sock")
    case True
    from a [OF True] have e: "emitted out = fst (relay grpc now data ?sid)"
      and r: "returned out = snd (relay grpc now data ?sid)" by simp_all
    have 1: "returned out \<longleftrightarrow> sendMessage grpc data \<noteq> None"
      unfolding r by (rule relay_returned)
    have 2: "list_ex terminating (emitted out) \<longleftrightarrow>
        \<not> (sendMessage grpc data = None
           \<or> (\<exists>resp. sendMessage grpc data = Some (Inr resp) \<and> response resp = []))"
      unfolding e by (rule relay_terminating)
    have 3: "list_ex terminating (emitted out) \<longrightarrow> terminating (last (emitted out))"
      unfolding e using relay_last by blast
    have 4: "\<not> list_ex terminating (emitted out) \<longrightarrow> emitted out = [typingIndicator ?sid]"
      unfolding e using relay_silent by blast
    show ?thesis
      by (intro exI [of _ out] conjI) (use h True 1 2 3 4 in simp_all)
  next
    case False
    from b [OF False] obtain c m where r: "returned out"
      and e: "emitted out = [sendErrorToClient now c m]" by blast
    have t: "list_ex terminating (emitted out)" "terminating (last (emitted out))"
      by (simp_all add: e sendErrorToClient_terminating)
    show ?thesis
      by (intro exI [of _ out] conjI) (use h False r t in simp_all)
  qed
qed

theorem chat_message_resolution_witness:
  "\<exists>out. handleChatMessage (Suc 0) DEFAULT_SESSION_CONFIG DEFAULT_RATE_LIMIT_CONFIG
       (answering ''hi there'') 125000 fresh_gateway first_message browser = Some out
     \<and> returned out \<and> list_ex terminating (emitted out) \<and> terminating (last (emitted out))"
proof -
  have a: "sendMessage (answering ''hi there'') first_message \<noteq> None"
    "\<not> (\<exists>resp. sendMessage (answering ''hi there'') first_message = Some (Inr resp)
          \<and> response resp = [])"
    by (simp_all add: first_message_answers)
  from chat_message_resolution [OF no_stale_fresh, of 0 DEFAULT_RATE_LIMIT_CONFIG
      "answering ''hi there''" first_message browser] a
  show ?thesis by blast
qed

text \<open>
  Claim C5, as stated, fails: the handler emits the inference response, and the error for
  a failed inference call, on the requesting client's socket; nothing is published on the
  \<open>chat_tokens\<close> channel (\<open>publishChatToken\<close> is never called).
\<close>

theorem answer_emitted_not_published_counterexample:
  "handleChatMessage (Suc 0) DEFAULT_SESSION_CONFIG DEFAULT_RATE_LIMIT_CONFIG
     (answering ''hi there'') 125000 fresh_gateway first_message browser
   = Some \<lparr>emitted = [typingIndicator ''s1'',
            Chat \<lparr>chat_sessionId = ''s1'', token = ''hi there'', isDone = True,
                  chat_sources = Some [], chat_toolCalls = Some []\<rparr>],
           gw = after_first_message, returned = True\<rparr>
   \<and> published (gw_redis fresh_gateway) = []
   \<and> published (gw_redis after_first_message) = []
   \<and> handleChatMessage (Suc 0) DEFAULT_SESSION_CONFIG DEFAULT_RATE_LIMIT_CONFIG
       (\<lambda>req. GrpcError) 125000 fresh_gateway first_message browser
     = Some \<lparr>emitted = [typingIndicator ''s1'',
              Error \<lparr>error = True, code = ''AGENT_ERROR'',
                     error_message = ''Failed to process chat message'', timestamp = 125000\<rparr>],
             gw = after_first_message, returned = True\<rparr>"
proof -
  have "published (gw_redis fresh_gateway) = []" "published (gw_redis after_first_message) = []"
    by (simp_all add: fresh_gateway_def after_first_message_def counted_store_def)
  then show ?thesis
    by (simp add: first_message_handled relay_def first_message_answers sendErrorToClient_def)
qed

text \<open>
  Claim C5, amended. On a store that holds no expired session record, for every admitted
  message (one that passes validation, session resolution and the message quota) the
  handler emits on the requesting client's socket only and publishes nothing on any
  channel: after the typing indicator it emits the response as a chat message with
  \<open>done = true\<close> when the inference call succeeds with a non-empty text, the
  \<open>AGENT_ERROR\<close> error object when the call fails, and nothing when the text is empty,
  and it returns; when the call never settles it does not return and emits nothing more.
\<close>

theorem chat_answer_delivery:
  assumes "no_stale scfg (gw_redis g) now"
    and "admitted (Suc n) scfg rcfg now g data sock"
  shows "\<exists>out. handleChatMessage (Suc n) scfg rcfg grpc now g data sock = Some out
     \<and> published (gw_redis (gw out)) = published (gw_redis g)
     \<and> (case sendMessage grpc data of
          None \<Rightarrow> emitted out = [typingIndicator (the (req_sessionId data))] \<and> \<not> returned out
        | Some (Inl e) \<Rightarrow>
            emitted out = [typingIndicator (the (req_sessionId data)),
                           sendErrorToClient now ''AGENT_ERROR'' ''Failed to process chat message'']
            \<and> returned out
        | Some (Inr resp) \<Rightarrow>
            emitted out = typingIndicator (the (req_sessionId data)) #
              (if response resp \<noteq> [] then
                 [Chat \<lparr>chat_sessionId = the (req_sessionId data), token = response resp,
                        isDone = True, chat_sources = Some (sources resp),
                        chat_toolCalls = Some (toolCalls resp)\<rparr>]
               else [])
            \<and> returned out)"
proof -
  from handleChatMessage_shape [OF assms(1), of n rcfg grpc data sock] assms(2)
  obtain out where h: "handleChatMessage (Suc n) scfg rcfg grpc now g data sock = Some out"
    and p: "published (gw_redis (gw out)) = published (gw_redis g)"
    and e: "emitted out = fst (relay grpc now data (the (req_sessionId data)))"
    and r: "returned out = snd (relay grpc now data (the (req_sessionId data)))"
    by blast
  have "case sendMessage grpc data of
          None \<Rightarrow> emitted out = [typingIndicator (the (req_sessionId data))] \<and> \<not> returned out
        | Some (Inl e) \<Rightarrow>
            emitted out = [typingIndicator (the (req_sessionId data)),
                           sendErrorToClient now ''AGENT_ERROR'' ''Failed to process chat message'']
            \<and> returned out
        | Some (Inr resp) \<Rightarrow>
            emitted out = typingIndicator (the (req_sessionId data)) #
              (if response resp \<noteq> [] then
                 [Chat \<lparr>chat_sessionId = the (req_sessionId data), token = response resp,
                        isDone = True, chat_sources = Some (sources resp),
                        chat_toolCalls = Some (toolCalls resp)\<rparr>]
               else [])
            \<and> returned out"
    unfolding e r by (simp add: relay_def split: option.splits sum.splits)
  then show ?thesis using h p by blast
qed

theorem chat_answer_delivery_witness:
  "\<exists>out. handleChatMessage (Suc 0) DEFAULT_SESSION_CONFIG DEFAULT_RATE_LIMIT_CONFIG
       (answering ''hi there'') 125000 fresh_gateway first_message browser = Some out
     \<and> published (gw_redis (gw out)) = []
     \<and> emitted out = [typingIndicator ''s1'',
                Chat \<lparr>chat_sessionId = ''s1'', token = ''hi there'', isDone = True,
                      chat_sources = Some [], chat_toolCalls = Some []\<rparr>]
     \<and> returned out"
proof -
  have e: "published (gw_redis fresh_gateway) = []" by (simp add: fresh_gateway_def)
  from chat_answer_delivery [OF no_stale_fresh first_message_admitted,
      of "answering ''hi there''"]
  show ?thesis
    by (simp add: first_message_answers first_message_fields e)
qed

end
